theory Spec2Isabelle
  imports Main "HOL-Library.Char_ord" "HOL-Library.List_Lexorder"
begin

section \<open>Python strings and numbers\<close>

text \<open>
  A Python \<open>str\<close> is modelled as a \<open>string\<close>; a \<open>char\<close> stands for the code point
  of the same number, so the model covers the strings whose code points are below 256.
  Python's \<open>int\<close> is \<open>int\<close>.
\<close>

definition is_space :: "char \<Rightarrow> bool" where
  \<comment> \<open>\<open>str.isspace\<close>, which is also the whitespace class of \<open>re\<close>, on one code point:
      tab, line feed, vertical tab, form feed, carriage return, the separators 28 to 31,
      space, NEL and the no-break space.\<close>
  "is_space c = (let n = (of_char c :: nat) in
     (9 \<le> n \<and> n \<le> 13) \<or> (28 \<le> n \<and> n \<le> 32) \<or> n = 133 \<or> n = 160)"

definition is_upper :: "char \<Rightarrow> bool" where
  "is_upper c = (let n = (of_char c :: nat) in
     (65 \<le> n \<and> n \<le> 90) \<or> (192 \<le> n \<and> n \<le> 222 \<and> n \<noteq> 215))"

definition lower_char :: "char \<Rightarrow> char" where
  \<comment> \<open>the lower-case letter lies 32 above the upper-case one, which sets the bit of
      value 32\<close>
  "lower_char c =
     (if is_upper c
      then (case c of Char b0 b1 b2 b3 b4 b5 b6 b7 \<Rightarrow> Char b0 b1 b2 b3 b4 True b6 b7)
      else c)"

definition lower :: "string \<Rightarrow> string" where
  "lower s = map lower_char s"

definition startswith :: "string \<Rightarrow> string \<Rightarrow> bool" where
  "startswith s p = (take (length p) s = p)"

definition endswith :: "string \<Rightarrow> string \<Rightarrow> bool" where
  "endswith s p = (length p \<le> length s \<and> drop (length s - length p) s = p)"

definition lstrip_chars :: "(char \<Rightarrow> bool) \<Rightarrow> string \<Rightarrow> string" where
  "lstrip_chars P s = dropWhile P s"

definition rstrip_chars :: "(char \<Rightarrow> bool) \<Rightarrow> string \<Rightarrow> string" where
  "rstrip_chars P s = rev (dropWhile P (rev s))"

definition strip_chars :: "(char \<Rightarrow> bool) \<Rightarrow> string \<Rightarrow> string" where
  \<comment> \<open>\<open>s.strip(chars)\<close>, the set of characters given as a predicate\<close>
  "strip_chars P s = rstrip_chars P (lstrip_chars P s)"

definition strip :: "string \<Rightarrow> string" where
  \<comment> \<open>\<open>s.strip()\<close>\<close>
  "strip s = strip_chars is_space s"

fun join_with :: "string \<Rightarrow> string list \<Rightarrow> string" where
  \<comment> \<open>\<open>sep.join(parts)\<close>\<close>
  "join_with sep [] = []"
| "join_with sep [x] = x"
| "join_with sep (x # y # ys) = x @ sep @ join_with sep (y # ys)"

fun split_on :: "char \<Rightarrow> string \<Rightarrow> string list" where
  \<comment> \<open>\<open>s.split(c)\<close> for a separator of one character\<close>
  "split_on c [] = [[]]"
| "split_on c (x # xs) =
     (if x = c then [] # split_on c xs
      else (case split_on c xs of [] \<Rightarrow> [[x]] | p # ps \<Rightarrow> (x # p) # ps))"

definition digit_char :: "nat \<Rightarrow> char" where
  "digit_char d = ''0123456789'' ! d"

function str_nat :: "nat \<Rightarrow> string" where
  "str_nat n = (if n < 10 then [digit_char n] else str_nat (n div 10) @ [digit_char (n mod 10)])"
  by pat_completeness auto
termination
  by (relation "measure id") auto

declare str_nat.simps [simp del]

definition str_int :: "int \<Rightarrow> string" where
  \<comment> \<open>\<open>str(n)\<close> of an integer\<close>
  "str_int n = (if n < 0 then CHR ''-'' # str_nat (nat (- n)) else str_nat (nat n))"

definition zfill :: "int \<Rightarrow> string \<Rightarrow> string" where
  \<comment> \<open>\<open>s.zfill(width)\<close>: zeros go after a leading sign; a width that is not larger than
      the length (negative ones included) changes nothing.\<close>
  "zfill width s =
     (if width \<le> int (length s) then s
      else let fill = replicate (nat (width - int (length s))) CHR ''0'' in
        (case s of
           c # cs \<Rightarrow> if c = CHR ''+'' \<or> c = CHR ''-'' then c # fill @ cs else fill @ s
         | [] \<Rightarrow> fill))"

definition hex_digit :: "nat \<Rightarrow> char" where
  "hex_digit d = ''0123456789abcdef'' ! d"

definition repr_char :: "char \<Rightarrow> char \<Rightarrow> string" where
  \<comment> \<open>one character inside \<open>repr\<close> of a string: the quote in use and the backslash get a
      backslash, tab, line feed and carriage return their letter, and the other characters
      that are not printable (controls, the no-break space, the soft hyphen) two hex digits\<close>
  "repr_char quote c =
     (let n = (of_char c :: nat) in
      if c = quote \<or> c = CHR 0x5C then [CHR 0x5C, c]
      else if n = 9 then [CHR 0x5C, CHR ''t'']
      else if n = 10 then [CHR 0x5C, CHR ''n'']
      else if n = 13 then [CHR 0x5C, CHR ''r'']
      else if n < 32 \<or> n = 127 \<or> (128 \<le> n \<and> n \<le> 160) \<or> n = 173
           then [CHR 0x5C, CHR ''x'', hex_digit (n div 16), hex_digit (n mod 16)]
      else [c])"

definition py_repr :: "string \<Rightarrow> string" where
  \<comment> \<open>\<open>repr(s)\<close>: single quotes, or double quotes when the string holds a single quote
      and no double quote\<close>
  "py_repr s =
     (let quote = (if CHR 0x27 \<in> set s \<and> CHR 0x22 \<notin> set s then CHR 0x22 else CHR 0x27)
      in quote # concat (map (repr_char quote) s) @ [quote])"

section \<open>Paths (\<open>os.path\<close> with the POSIX separator)\<close>

definition sep :: char where
  "sep = CHR ''/''"

definition path_split :: "string \<Rightarrow> string \<times> string" where
  \<comment> \<open>\<open>os.path.split\<close>: cut after the last separator; the head loses its trailing
      separators unless it consists of separators only.\<close>
  "path_split p =
     (let tail = rev (takeWhile (\<lambda>c. c \<noteq> sep) (rev p));
          head = rev (dropWhile (\<lambda>c. c \<noteq> sep) (rev p))
      in (if head \<noteq> [] \<and> head \<noteq> replicate (length head) sep
          then rstrip_chars (\<lambda>c. c = sep) head else head, tail))"

definition dirname :: "string \<Rightarrow> string" where
  "dirname p = fst (path_split p)"

definition basename :: "string \<Rightarrow> string" where
  "basename p = snd (path_split p)"

definition path_join :: "string \<Rightarrow> string \<Rightarrow> string" where
  \<comment> \<open>\<open>os.path.join(a, b)\<close>\<close>
  "path_join a b =
     (if startswith b [sep] then b
      else if a = [] \<or> endswith a [sep] then a @ b
      else a @ [sep] @ b)"

definition splitext :: "string \<Rightarrow> string \<times> string" where
  \<comment> \<open>\<open>os.path.splitext\<close> on a name without separator: the extension starts at the last
      dot, provided some character before that dot is not a dot.\<close>
  "splitext p =
     (let ext_rev = takeWhile (\<lambda>c. c \<noteq> CHR ''.'') (rev p);
          root = take (length p - length ext_rev - 1) p
      in if CHR ''.'' \<in> set p \<and> list_ex (\<lambda>c. c \<noteq> CHR ''.'') root
         then (root, drop (length root) p) else (p, []))"

section \<open>File items\<close>

record FileItem =
  original_path :: string
  original_name :: string
  new_name :: string
  extension :: string
  directory :: string

definition make_FileItem :: "string \<Rightarrow> FileItem" where
  \<comment> \<open>what \<open>__post_init__\<close> leaves of an item constructed for the path \<open>p\<close>: the directory,
      the name and the extension are computed from the path, whatever name was passed\<close>
  "make_FileItem p =
     \<lparr> original_path = p,
       original_name = fst (splitext (basename p)),
       new_name = [],
       extension = snd (splitext (basename p)),
       directory = dirname p \<rparr>"

datatype py_exception = TypeError

definition FileItem_init :: "string \<Rightarrow> string option \<Rightarrow> py_exception + FileItem" where
  \<comment> \<open>the constructor of the dataclass: \<open>original_path\<close> and \<open>original_name\<close> are fields
      without default, so a call that passes no \<open>original_name\<close> raises \<open>TypeError\<close>\<close>
  "FileItem_init p name_argument =
     (case name_argument of
        None \<Rightarrow> Inl TypeError
      | Some given \<Rightarrow> Inr (make_FileItem p))"

definition new_path :: "FileItem \<Rightarrow> string" where
  "new_path f =
     (if new_name f \<noteq> [] then path_join (directory f) (new_name f @ extension f)
      else original_path f)"


section \<open>The file system\<close>

text \<open>
  The program sees the file system through \<open>os.path.exists\<close>, \<open>os.path.isfile\<close>,
  \<open>os.listdir\<close>, \<open>os.walk\<close>, \<open>os.makedirs\<close> and \<open>os.rename\<close>. The store maps a path,
  compared as a string as the program compares it, to what is there: a regular file with
  an identity, or a directory. The first entry of a path is the valid one. A directory is
  an entry of its own, its children are the entries one name below it, and renaming moves
  the one entry that is named. An entry can be made or moved to a path only when the
  directory above that path is in the store, so a store for absolute paths holds the root.
\<close>

datatype node = File nat | Dir

type_synonym filesystem = "(string \<times> node) list"

datatype error_kind = FileNotFound | FileExists | IsADirectory | NotADirectory | DirectoryNotEmpty

datatype os_error = OSError error_kind string "string option"
  \<comment> \<open>the kind, the file name and, for \<open>os.rename\<close>, the second file name\<close>

fun errno_text :: "error_kind \<Rightarrow> string" where
  "errno_text FileNotFound = ''[Errno 2] No such file or directory''"
| "errno_text FileExists = ''[Errno 17] File exists''"
| "errno_text IsADirectory = ''[Errno 21] Is a directory''"
| "errno_text NotADirectory = ''[Errno 20] Not a directory''"
| "errno_text DirectoryNotEmpty = ''[Errno 39] Directory not empty''"

fun str_os_error :: "os_error \<Rightarrow> string" where
  \<comment> \<open>\<open>str(e)\<close>\<close>
  "str_os_error (OSError kind filename filename2) =
     errno_text kind @ '': '' @ py_repr filename
     @ (case filename2 of None \<Rightarrow> [] | Some second \<Rightarrow> '' -> '' @ py_repr second)"

fun is_FileExistsError :: "os_error \<Rightarrow> bool" where
  "is_FileExistsError (OSError kind filename filename2) = (kind = FileExists)"

definition os_path_exists :: "filesystem \<Rightarrow> string \<Rightarrow> bool" where
  "os_path_exists fs p = (map_of fs p \<noteq> None)"

definition os_path_isfile :: "filesystem \<Rightarrow> string \<Rightarrow> bool" where
  "os_path_isfile fs p = (case map_of fs p of Some (File i) \<Rightarrow> True | _ \<Rightarrow> False)"

definition os_path_isdir :: "filesystem \<Rightarrow> string \<Rightarrow> bool" where
  "os_path_isdir fs p = (map_of fs p = Some Dir)"

definition children :: "filesystem \<Rightarrow> string \<Rightarrow> string list" where
  \<comment> \<open>the names directly below \<open>d\<close>\<close>
  "children fs d =
     remdups (map basename
       (filter (\<lambda>p. basename p \<noteq> [] \<and> path_join d (basename p) = p) (map fst fs)))"

definition os_listdir :: "filesystem \<Rightarrow> string \<Rightarrow> os_error + string list" where
  "os_listdir fs d =
     (case map_of fs d of
        None \<Rightarrow> Inl (OSError FileNotFound d None)
      | Some (File i) \<Rightarrow> Inl (OSError NotADirectory d None)
      | Some Dir \<Rightarrow> Inr (children fs d))"

definition head_tail :: "string \<Rightarrow> string \<times> string" where
  \<comment> \<open>\<open>head, tail = path.split(name)\<close>, and once more on the head when the tail is empty,
      as \<open>os.makedirs\<close> begins\<close>
  "head_tail name =
     (if snd (path_split name) = [] then path_split (fst (path_split name))
      else path_split name)"

definition parent_error :: "filesystem \<Rightarrow> string \<Rightarrow> error_kind option" where
  \<comment> \<open>what is wrong with the directory above \<open>name\<close>, if anything; a name without
      directory part lies in the current directory\<close>
  "parent_error fs name =
     (let parent = fst (head_tail name) in
      if parent = [] then None
      else (case map_of fs parent of
              None \<Rightarrow> Some FileNotFound
            | Some (File i) \<Rightarrow> Some NotADirectory
            | Some Dir \<Rightarrow> None))"

definition os_mkdir :: "filesystem \<Rightarrow> string \<Rightarrow> os_error + filesystem" where
  "os_mkdir fs name =
     (if name = [] then Inl (OSError FileNotFound name None)
      else if os_path_exists fs name then Inl (OSError FileExists name None)
      else (case parent_error fs name of
              Some kind \<Rightarrow> Inl (OSError kind name None)
            | None \<Rightarrow> Inr ((name, Dir) # fs)))"

definition mkdir_exist_ok :: "filesystem \<Rightarrow> string \<Rightarrow> os_error + filesystem" where
  \<comment> \<open>the end of \<open>os.makedirs\<close>: \<open>mkdir\<close>, whose error is passed on unless the name is a
      directory\<close>
  "mkdir_exist_ok fs name =
     (case os_mkdir fs name of
        Inr fs' \<Rightarrow> Inr fs'
      | Inl e \<Rightarrow> if os_path_isdir fs name then Inr fs else Inl e)"

lemma path_split_length: "length (fst (path_split p)) + length (snd (path_split p)) \<le> length p"
proof -
  let ?P = "\<lambda>c. c \<noteq> sep"
  have whole: "length (takeWhile ?P (rev p)) + length (dropWhile ?P (rev p)) = length p"
    using takeWhile_dropWhile_id [of ?P "rev p"] by (metis length_append length_rev)
  have "length (rstrip_chars (\<lambda>c. c = sep) (rev (dropWhile ?P (rev p))))
          \<le> length (dropWhile ?P (rev p))"
    using length_dropWhile_le [of "\<lambda>c. c = sep" "rev (rev (dropWhile ?P (rev p)))"]
    by (simp add: rstrip_chars_def)
  with whole show ?thesis by (simp add: path_split_def Let_def)
qed

lemma head_tail_shorter:
  assumes "snd (head_tail name) \<noteq> []"
  shows "length (fst (head_tail name)) < length name"
proof (cases "snd (path_split name) = []")
  case True
  with assms have "snd (path_split (fst (path_split name))) \<noteq> []"
    by (simp add: head_tail_def)
  with path_split_length [of "fst (path_split name)"]
  have "length (fst (path_split (fst (path_split name)))) < length (fst (path_split name))"
    by (cases "snd (path_split (fst (path_split name)))") auto
  with path_split_length [of name] True show ?thesis by (simp add: head_tail_def)
next
  case False
  with path_split_length [of name] show ?thesis
    by (cases "snd (path_split name)") (auto simp: head_tail_def)
qed

function os_makedirs :: "filesystem \<Rightarrow> string \<Rightarrow> os_error + filesystem" where
  \<comment> \<open>\<open>os.makedirs(name, exist_ok=True)\<close>: a missing head is made first, by the same
      function, and a \<open>FileExistsError\<close> of that call is ignored\<close>
  "os_makedirs fs name =
     (if fst (head_tail name) \<noteq> [] \<and> snd (head_tail name) \<noteq> []
         \<and> \<not> os_path_exists fs (fst (head_tail name))
      then (case os_makedirs fs (fst (head_tail name)) of
              Inr fs1 \<Rightarrow>
                if snd (head_tail name) = ''.'' then Inr fs1 else mkdir_exist_ok fs1 name
            | Inl e \<Rightarrow>
                if is_FileExistsError e
                then (if snd (head_tail name) = ''.'' then Inr fs else mkdir_exist_ok fs name)
                else Inl e)
      else mkdir_exist_ok fs name)"
  by pat_completeness auto
termination
  by (relation "measure (\<lambda>(fs, name). length name)") (auto simp: head_tail_shorter)

declare os_makedirs.simps [simp del]

definition move_entry :: "filesystem \<Rightarrow> string \<Rightarrow> string \<Rightarrow> node \<Rightarrow> filesystem" where
  "move_entry fs src dst n = (dst, n) # filter (\<lambda>e. fst e \<noteq> src \<and> fst e \<noteq> dst) fs"

definition os_rename :: "filesystem \<Rightarrow> string \<Rightarrow> string \<Rightarrow> os_error + filesystem" where
  \<comment> \<open>\<open>os.rename(src, dst)\<close>: an existing regular file at \<open>dst\<close> is replaced\<close>
  "os_rename fs src dst =
     (case map_of fs src of
        None \<Rightarrow> Inl (OSError FileNotFound src (Some dst))
      | Some n \<Rightarrow>
          (case parent_error fs dst of
             Some kind \<Rightarrow> Inl (OSError kind src (Some dst))
           | None \<Rightarrow>
               (case n of
                  File i \<Rightarrow>
                    (if map_of fs dst = Some Dir then Inl (OSError IsADirectory src (Some dst))
                     else Inr (move_entry fs src dst (File i)))
                | Dir \<Rightarrow>
                    (case map_of fs dst of
                       Some (File j) \<Rightarrow> Inl (OSError NotADirectory src (Some dst))
                     | Some Dir \<Rightarrow>
                         (if src \<noteq> dst \<and> children fs dst \<noteq> []
                          then Inl (OSError DirectoryNotEmpty src (Some dst))
                          else Inr (move_entry fs src dst Dir))
                     | None \<Rightarrow> Inr (move_entry fs src dst Dir)))))"

section \<open>File utilities (\<open>utils/file_utils.py\<close>)\<close>

definition is_lower :: "char \<Rightarrow> bool" where
  "is_lower c = (let n = (of_char c :: nat) in
     (97 \<le> n \<and> n \<le> 122) \<or> (224 \<le> n \<and> n \<le> 254 \<and> n \<noteq> 247))"

definition upper_char :: "char \<Rightarrow> char" where
  \<comment> \<open>the upper-case letter lies 32 below; the three letters below 256 whose upper case
      is not below 256 are left as they are, and none of them yields an ASCII letter\<close>
  "upper_char c =
     (if is_lower c
      then (case c of Char b0 b1 b2 b3 b4 b5 b6 b7 \<Rightarrow> Char b0 b1 b2 b3 b4 False b6 b7)
      else c)"

definition upper :: "string \<Rightarrow> string" where
  "upper s = map upper_char s"

definition invalid_chars :: string where
  \<comment> \<open>the characters \<open>< > : " / \ | ? *\<close>\<close>
  "invalid_chars = [CHR ''<'', CHR ''>'', CHR '':'', CHR 0x22, CHR ''/'', CHR 0x5C,
                    CHR ''|'', CHR ''?'', CHR ''*'']"

definition reserved_names :: "string list" where
  "reserved_names =
     [''CON'', ''PRN'', ''AUX'', ''NUL'',
      ''COM1'', ''COM2'', ''COM3'', ''COM4'', ''COM5'', ''COM6'', ''COM7'', ''COM8'', ''COM9'',
      ''LPT1'', ''LPT2'', ''LPT3'', ''LPT4'', ''LPT5'', ''LPT6'', ''LPT7'', ''LPT8'', ''LPT9'']"

definition is_valid_filename :: "string \<Rightarrow> bool" where
  "is_valid_filename filename =
     (if filename = [] then False
      else if list_ex (\<lambda>c. c \<in> set filename) invalid_chars then False
      else if upper (fst (splitext filename)) \<in> set reserved_names then False
      else if endswith filename '' '' \<or> endswith filename ''.'' then False
      else True)"

definition safe_rename :: "filesystem \<Rightarrow> string \<Rightarrow> string \<Rightarrow> filesystem \<times> bool \<times> string option" where
  "safe_rename fs old_path new_path' =
     (if os_path_exists fs new_path'
      then (fs, False, Some (''Target file already exists: '' @ new_path'))
      else let new_filename = basename new_path' in
        if \<not> is_valid_filename new_filename
        then (fs, False, Some (''Invalid filename: '' @ new_filename))
        else (case os_makedirs fs (dirname new_path') of
                Inl e \<Rightarrow> (fs, False, Some (str_os_error e))
              | Inr fs1 \<Rightarrow>
                  (case os_rename fs1 old_path new_path' of
                     Inl e \<Rightarrow> (fs1, False, Some (str_os_error e))
                   | Inr fs2 \<Rightarrow> (fs2, True, None))))"

definition parse_file_types :: "string \<Rightarrow> string list" where
  "parse_file_types file_types_string =
     (if file_types_string = [] then []
      else map strip (filter (\<lambda>ft. strip ft \<noteq> []) (split_on CHR '','' file_types_string)))"

definition matches_types :: "string list \<Rightarrow> string \<Rightarrow> bool" where
  \<comment> \<open>\<open>any(filename.lower().endswith(ft) for ft in file_types_lower)\<close>\<close>
  "matches_types file_types_lower filename =
     list_ex (\<lambda>ft. endswith (lower filename) ft) file_types_lower"


subsection \<open>Walking a directory tree\<close>

definition max_path_length :: "filesystem \<Rightarrow> nat" where
  "max_path_length fs = foldr (\<lambda>e m. max (length (fst e)) m) fs 0"

lemma length_le_max_path_length:
  "p \<in> set (map fst fs) \<Longrightarrow> length p \<le> max_path_length fs"
proof (induction fs)
  case Nil
  then show ?case by simp
next
  case (Cons e fs)
  have unfold: "max_path_length (e # fs) = max (length (fst e)) (max_path_length fs)"
    by (simp add: max_path_length_def)
  from Cons.prems have "p = fst e \<or> p \<in> set (map fst fs)" by auto
  then show ?case
  proof
    assume "p = fst e"
    then show ?thesis by (simp add: unfold)
  next
    assume "p \<in> set (map fst fs)"
    from Cons.IH [OF this] show ?thesis by (simp add: unfold)
  qed
qed

lemma sep_notin_basename: "sep \<notin> set (basename p)"
proof -
  have "\<forall>c \<in> set (takeWhile (\<lambda>c. c \<noteq> sep) (rev p)). c \<noteq> sep"
    by (auto dest: set_takeWhileD)
  then show ?thesis by (auto simp: basename_def path_split_def Let_def)
qed

lemma path_join_longer:
  assumes "n \<noteq> []" "sep \<notin> set n"
  shows "length d < length (path_join d n)"
proof -
  from assms have "\<not> startswith n [sep]"
    by (cases n) (auto simp: startswith_def)
  with assms show ?thesis by (auto simp: path_join_def)
qed

lemma children_D:
  assumes "n \<in> set (children fs d)"
  shows "n \<noteq> [] \<and> sep \<notin> set n \<and> path_join d n \<in> set (map fst fs)"
  using assms sep_notin_basename by (auto simp: children_def)

function os_walk :: "filesystem \<Rightarrow> string \<Rightarrow> (string \<times> string list \<times> string list) list" where
  \<comment> \<open>\<open>os.walk(root)\<close>, top down: the directory with the names of its subdirectories and
      of its other entries, then each subdirectory in turn; a directory that cannot be
      listed yields nothing\<close>
  "os_walk fs root =
     (case os_listdir fs root of
        Inl e \<Rightarrow> []
      | Inr names \<Rightarrow>
          (root, filter (\<lambda>n. os_path_isdir fs (path_join root n)) names,
                 filter (\<lambda>n. \<not> os_path_isdir fs (path_join root n)) names)
          # concat (map (\<lambda>d. os_walk fs (path_join root d))
                        (filter (\<lambda>n. os_path_isdir fs (path_join root n)) names)))"
  by pat_completeness auto
termination
proof (relation "measure (\<lambda>(fs, root). Suc (max_path_length fs) - length root)", goal_cases)
  case 1
  show ?case by simp
next
  case (2 fs root names d)
  from 2(1) have "names = children fs root"
    by (auto simp: os_listdir_def split: option.splits node.splits)
  with 2(2) have d: "d \<in> set (children fs root)" by simp
  from children_D [OF d] have "length root < length (path_join root d)"
    and "length (path_join root d) \<le> max_path_length fs"
    using path_join_longer length_le_max_path_length by blast+
  then show ?case by simp
qed

declare os_walk.simps [simp del]

definition get_files_in_directory :: "filesystem \<Rightarrow> string \<Rightarrow> string list \<Rightarrow> bool \<Rightarrow> string list" where
  \<comment> \<open>an error of \<open>os.listdir\<close> is caught and logged, and leaves the list empty\<close>
  "get_files_in_directory fs directory' file_types' recursive' =
     (if directory' = [] \<or> \<not> os_path_exists fs directory' then []
      else let file_types_lower = map (\<lambda>ft. strip (lower ft)) file_types' in
        sort
          (if recursive'
           then concat (map (\<lambda>(root, dirs, filenames).
                               map (path_join root) (filter (matches_types file_types_lower) filenames))
                            (os_walk fs directory'))
           else (case os_listdir fs directory' of
                   Inl e \<Rightarrow> []
                 | Inr filenames \<Rightarrow>
                     map (path_join directory')
                       (filter (\<lambda>filename. os_path_isfile fs (path_join directory' filename)
                                            \<and> matches_types file_types_lower filename)
                               filenames))))"


section \<open>Library calls that are left open\<close>

text \<open>
  The case-insensitive replacement goes through \<open>re.sub\<close>, and the dates come from file
  timestamps, \<open>strftime\<close> and the image library. They are parameters of the model:
  \<open>re_sub_ignorecase find repl name\<close> stands for
  \<open>re.sub(re.escape(find), repl, name, flags=re.IGNORECASE)\<close>, \<open>getctime\<close> and \<open>getmtime\<close>
  give no timestamp when the call raises, \<open>strftime\<close> gives the message of the exception
  on the left when formatting raises, and \<open>exif_date\<close> is \<open>get_exif_date\<close> as a whole.
\<close>

record Library =
  re_sub_ignorecase :: "string \<Rightarrow> string \<Rightarrow> string \<Rightarrow> string"
  getctime :: "string \<Rightarrow> int option"
  getmtime :: "string \<Rightarrow> int option"
  strftime :: "string \<Rightarrow> int \<Rightarrow> string + string"
  exif_date :: "string \<Rightarrow> string \<Rightarrow> string option"
  now :: int

definition get_creation_date :: "Library \<Rightarrow> string \<Rightarrow> string \<Rightarrow> string option" where
  "get_creation_date lib file_path date_format' =
     (case getctime lib file_path of
        None \<Rightarrow> None
      | Some timestamp \<Rightarrow>
          (case strftime lib date_format' timestamp of Inl e \<Rightarrow> None | Inr d \<Rightarrow> Some d))"

definition get_modification_date :: "Library \<Rightarrow> string \<Rightarrow> string \<Rightarrow> string option" where
  "get_modification_date lib file_path date_format' =
     (case getmtime lib file_path of
        None \<Rightarrow> None
      | Some timestamp \<Rightarrow>
          (case strftime lib date_format' timestamp of Inl e \<Rightarrow> None | Inr d \<Rightarrow> Some d))"

definition get_date_by_type :: "Library \<Rightarrow> string \<Rightarrow> string \<Rightarrow> string \<Rightarrow> string option" where
  "get_date_by_type lib file_path date_type' date_format' =
     (let dt = lower date_type' in
      if dt = ''creation'' then get_creation_date lib file_path date_format'
      else if dt = ''modification'' then get_modification_date lib file_path date_format'
      else if dt = ''exif'' then exif_date lib file_path date_format'
      else None)"

function replace_scan :: "string \<Rightarrow> string \<Rightarrow> string \<Rightarrow> string" where
  "replace_scan old new s =
     (if s = [] then []
      else if old \<noteq> [] \<and> startswith s old
           then new @ replace_scan old new (drop (length old) s)
           else hd s # replace_scan old new (tl s))"
  by pat_completeness auto
termination
  by (relation "measure (\<lambda>(old, new, s). length s)") auto

declare replace_scan.simps [simp del]

definition str_replace :: "string \<Rightarrow> string \<Rightarrow> string \<Rightarrow> string" where
  \<comment> \<open>\<open>s.replace(old, new)\<close>; an empty \<open>old\<close> matches before every character and at the
      end\<close>
  "str_replace old new s =
     (if old = [] then new @ concat (map (\<lambda>c. c # new) s) else replace_scan old new s)"

section \<open>The file manager (\<open>core/file_manager.py\<close>)\<close>

text \<open>
  The progress callback receives two counts and gives nothing back to the file manager;
  it is left out of the state.
\<close>

record FileManager =
  files :: "FileItem list"
  current_directory :: string
  file_types :: "string list"
  recursive :: bool

definition DEFAULT_FILE_TYPES :: string where
  "DEFAULT_FILE_TYPES = ''.jpg, .jpeg, .png, .gif, .bmp, .tiff, .raw''"

definition FileManager_init :: FileManager where
  "FileManager_init =
     \<lparr> files = [], current_directory = [],
       file_types = parse_file_types DEFAULT_FILE_TYPES, recursive = False \<rparr>"

definition set_directory :: "filesystem \<Rightarrow> FileManager \<Rightarrow> string \<Rightarrow> FileManager \<times> bool" where
  "set_directory fs fm d =
     (if d = [] \<or> \<not> os_path_exists fs d \<or> \<not> os_path_isdir fs d then (fm, False)
      else (fm\<lparr>current_directory := d\<rparr>, True))"

fun load_loop :: "string list \<Rightarrow> FileItem list \<Rightarrow> FileItem list \<times> bool" where
  \<comment> \<open>the loop of \<open>load_files\<close> inside its \<open>try\<close>: each path goes through
      \<open>FileItem(original_path=file_path)\<close>, and an exception ends the loading with \<open>False\<close>\<close>
  "load_loop [] loaded = (loaded, True)"
| "load_loop (file_path # rest) loaded =
     (case FileItem_init file_path None of
        Inl e \<Rightarrow> (loaded, False)
      | Inr file_item \<Rightarrow> load_loop rest (loaded @ [file_item]))"

definition load_files :: "filesystem \<Rightarrow> FileManager \<Rightarrow> FileManager \<times> bool" where
  \<comment> \<open>the list is cleared before the loop\<close>
  "load_files fs fm =
     (if current_directory fm = [] then (fm, False)
      else (case load_loop
                   (get_files_in_directory fs (current_directory fm) (file_types fm)
                      (recursive fm)) [] of
              (loaded, ok) \<Rightarrow> (fm\<lparr>files := loaded\<rparr>, ok)))"

definition apply_text_replacement ::
  "Library \<Rightarrow> string \<Rightarrow> string \<Rightarrow> bool \<Rightarrow> FileItem list \<Rightarrow> FileItem list" where
  "apply_text_replacement lib find_text' replace_text' case_sensitive' fl =
     (if find_text' = [] then fl
      else map (\<lambda>file_item.
                  file_item\<lparr>new_name :=
                    (if case_sensitive'
                     then str_replace find_text' replace_text' (original_name file_item)
                     else re_sub_ignorecase lib find_text' replace_text'
                            (original_name file_item))\<rparr>) fl)"

definition apply_prefix_suffix :: "string \<Rightarrow> string \<Rightarrow> FileItem list \<Rightarrow> FileItem list" where
  "apply_prefix_suffix prefix' suffix' fl =
     map (\<lambda>file_item. file_item\<lparr>new_name := prefix' @ original_name file_item @ suffix'\<rparr>) fl"

fun numbering_loop :: "int \<Rightarrow> int \<Rightarrow> nat \<Rightarrow> FileItem list \<Rightarrow> FileItem list" where
  \<comment> \<open>\<open>for i, file_item in enumerate(self.files)\<close>, from index \<open>i\<close> on\<close>
  "numbering_loop start_number' padding' i [] = []"
| "numbering_loop start_number' padding' i (file_item # rest) =
     (let number = zfill padding' (str_int (start_number' + int i));
          base_name = (if new_name file_item \<noteq> [] then new_name file_item
                       else original_name file_item)
      in file_item\<lparr>new_name := base_name @ ''_'' @ number\<rparr>
         # numbering_loop start_number' padding' (Suc i) rest)"

definition apply_sequential_numbering :: "int \<Rightarrow> int \<Rightarrow> FileItem list \<Rightarrow> FileItem list" where
  "apply_sequential_numbering start_number' padding' fl =
     numbering_loop start_number' padding' 0 fl"

definition apply_date_addition ::
  "Library \<Rightarrow> string \<Rightarrow> string \<Rightarrow> FileItem list \<Rightarrow> FileItem list" where
  "apply_date_addition lib date_type' date_format' fl =
     map (\<lambda>file_item.
            (case get_date_by_type lib (original_path file_item) date_type' date_format' of
               None \<Rightarrow> file_item
             | Some date_str \<Rightarrow>
                 if date_str = [] then file_item
                 else file_item\<lparr>new_name :=
                        (if new_name file_item \<noteq> [] then new_name file_item
                         else original_name file_item) @ ''_'' @ date_str\<rparr>)) fl"

fun pattern_loop :: "(FileItem \<Rightarrow> nat \<Rightarrow> string) \<Rightarrow> nat \<Rightarrow> FileItem list \<Rightarrow> FileItem list" where
  "pattern_loop pattern_generator i [] = []"
| "pattern_loop pattern_generator i (file_item # rest) =
     file_item\<lparr>new_name := pattern_generator file_item i\<rparr>
     # pattern_loop pattern_generator (Suc i) rest"

definition apply_pattern :: "(FileItem \<Rightarrow> nat \<Rightarrow> string) \<Rightarrow> FileItem list \<Rightarrow> FileItem list" where
  "apply_pattern pattern_generator fl = pattern_loop pattern_generator 0 fl"

definition preview_list :: "FileItem list \<Rightarrow> (string \<times> string) list" where
  \<comment> \<open>\<open>FileManager.preview_changes\<close>\<close>
  "preview_list fl =
     map (\<lambda>file_item.
            let original = original_name file_item @ extension file_item
            in (original,
                if new_name file_item \<noteq> [] then new_name file_item @ extension file_item
                else original)) fl"

definition reset_changes :: "FileItem list \<Rightarrow> FileItem list" where
  "reset_changes fl = map (\<lambda>file_item. file_item\<lparr>new_name := []\<rparr>) fl"

fun validate_loop ::
  "filesystem \<Rightarrow> FileItem list \<Rightarrow> string list \<Rightarrow> string set \<Rightarrow> string list" where
  "validate_loop fs [] errors new_names = errors"
| "validate_loop fs (file_item # rest) errors new_names =
     (if new_name file_item = [] then validate_loop fs rest errors new_names
      else
        let new_full_name = new_name file_item @ extension file_item;
            errors1 = (if new_full_name \<in> new_names
                       then errors @ [''Duplicate filename: '' @ new_full_name] else errors);
            new_names1 = (if new_full_name \<in> new_names then new_names
                          else insert new_full_name new_names);
            errors2 = (if os_path_exists fs (new_path file_item)
                          \<and> new_path file_item \<noteq> original_path file_item
                       then errors1 @ [''Target file already exists: '' @ new_full_name]
                       else errors1)
        in validate_loop fs rest errors2 new_names1)"

definition validate_changes :: "filesystem \<Rightarrow> FileItem list \<Rightarrow> string list" where
  "validate_changes fs fl = validate_loop fs fl [] {}"

definition format_optional :: "string option \<Rightarrow> string" where
  \<comment> \<open>an optional string inside an f-string\<close>
  "format_optional m = (case m of None \<Rightarrow> ''None'' | Some t \<Rightarrow> t)"

fun execute_loop ::
  "filesystem \<Rightarrow> FileItem list \<Rightarrow> (string \<times> string) list \<Rightarrow> string list \<Rightarrow>
     filesystem \<times> FileItem list \<times> (string \<times> string) list \<times> string list" where
  "execute_loop fs [] successful_renames errors = (fs, [], successful_renames, errors)"
| "execute_loop fs (file_item # rest) successful_renames errors =
     (if new_name file_item = []
      then (case execute_loop fs rest successful_renames errors of
              (fs', rest', s, e) \<Rightarrow> (fs', file_item # rest', s, e))
      else
        let old_path = original_path file_item;
            new_path' = new_path file_item
        in (case safe_rename fs old_path new_path' of
              (fs1, success, error_msg) \<Rightarrow>
                if success
                then (case execute_loop fs1 rest (successful_renames @ [(old_path, new_path')])
                             errors of
                        (fs', rest', s, e) \<Rightarrow>
                          (fs', file_item\<lparr>original_path := new_path',
                                           original_name := new_name file_item,
                                           new_name := []\<rparr> # rest', s, e))
                else (case execute_loop fs1 rest successful_renames
                             (errors @ [''Failed to rename '' @ basename old_path @ '': ''
                                          @ format_optional error_msg]) of
                        (fs', rest', s, e) \<Rightarrow> (fs', file_item # rest', s, e))))"

definition FileManager_execute_rename ::
  "filesystem \<Rightarrow> FileItem list \<Rightarrow>
     filesystem \<times> FileItem list \<times> (string \<times> string) list \<times> string list" where
  "FileManager_execute_rename fs fl =
     (let validation_errors = validate_changes fs fl in
      if validation_errors \<noteq> [] then (fs, fl, [], validation_errors)
      else execute_loop fs fl [] [])"


section \<open>Validators (\<open>utils/validators.py\<close>)\<close>

definition is_digit :: "char \<Rightarrow> bool" where
  "is_digit c = (let n = (of_char c :: nat) in 48 \<le> n \<and> n \<le> 57)"

definition digits_value :: "string \<Rightarrow> int" where
  "digits_value ds = foldl (\<lambda>a c. 10 * a + (int (of_char c) - 48)) 0 ds"

definition parse_int :: "string \<Rightarrow> int option" where
  \<comment> \<open>\<open>int(value)\<close> on surrounding whitespace, an optional sign and decimal digits, which
      covers every text that \<open>str\<close> of an integer produces; \<open>None\<close> stands for
      \<open>ValueError\<close>\<close>
  "parse_int v =
     (let t = strip v;
          negative = (t \<noteq> [] \<and> hd t = CHR ''-'');
          ds = (if t \<noteq> [] \<and> (hd t = CHR ''-'' \<or> hd t = CHR ''+'') then tl t else t)
      in if ds = [] \<or> \<not> list_all is_digit ds then None
         else Some (if negative then - digits_value ds else digits_value ds))"

definition validate_number_input :: "string \<Rightarrow> int \<Rightarrow> int option \<Rightarrow> bool \<times> string option" where
  "validate_number_input v min_value max_value =
     (if strip v = [] then (False, Some ''Value cannot be empty'')
      else (case parse_int v of
              None \<Rightarrow> (False, Some ''Value must be a valid number'')
            | Some num \<Rightarrow>
                if num < min_value
                then (False, Some (''Value must be at least '' @ str_int min_value))
                else (case max_value of
                        None \<Rightarrow> (True, None)
                      | Some m \<Rightarrow>
                          if num > m then (False, Some (''Value must be at most '' @ str_int m))
                          else (True, None))))"

definition validate_padding_input :: "string \<Rightarrow> bool \<times> string option" where
  "validate_padding_input v = validate_number_input v 1 (Some 10)"

definition validate_start_number_input :: "string \<Rightarrow> bool \<times> string option" where
  "validate_start_number_input v = validate_number_input v 0 (Some 999999)"

definition validate_filename_pattern :: "string \<Rightarrow> bool \<times> string option" where
  "validate_filename_pattern pattern =
     (if pattern = [] then (False, Some ''Pattern cannot be empty'')
      else (case find (\<lambda>c. c \<in> set pattern) invalid_chars of
              Some c \<Rightarrow>
                (False, Some (''Pattern contains invalid character: '' @ [CHR 0x27, c, CHR 0x27]))
            | None \<Rightarrow>
                if list_ex (\<lambda>c. (of_char c :: nat) < 32) pattern
                then (False, Some ''Pattern contains invalid control characters'')
                else (True, None)))"

definition validate_date_format :: "Library \<Rightarrow> string \<Rightarrow> bool \<times> string option" where
  "validate_date_format lib date_format' =
     (if date_format' = [] then (False, Some ''Date format cannot be empty'')
      else (case strftime lib date_format' (now lib) of
              Inr d \<Rightarrow> (True, None)
            | Inl e \<Rightarrow> (False, Some (''Invalid date format: '' @ e))))"

definition valid_placeholders :: "string list" where
  "valid_placeholders = [''{prefix}'', ''{name}'', ''{suffix}'', ''{num}'', ''{date}'']"

definition validate_pattern_placeholder :: "string \<Rightarrow> bool \<times> string option" where
  "validate_pattern_placeholder placeholder =
     (if placeholder = [] then (False, Some ''Placeholder cannot be empty'')
      else if startswith placeholder ''{'' \<and> endswith placeholder ''}''
           then (if placeholder \<in> set valid_placeholders then (True, None)
                 else (False, Some (''Unknown placeholder: '' @ placeholder)))
           else validate_filename_pattern placeholder)"

section \<open>The pattern builder (\<open>core/pattern_builder.py\<close>)\<close>

record PatternElement =
  el_type :: string
  el_value :: string
  el_position :: nat

fun set_pattern_loop ::
  "nat \<Rightarrow> string list \<Rightarrow> PatternElement list \<Rightarrow> PatternElement list \<times> bool" where
  "set_pattern_loop i [] elements = (elements, True)"
| "set_pattern_loop i (element # rest) elements =
     (if \<not> fst (validate_pattern_placeholder element) then (elements, False)
      else set_pattern_loop (Suc i) rest
             (elements @
              [\<lparr> el_type = (if startswith element ''{'' \<and> endswith element ''}''
                            then ''placeholder'' else ''text''),
                 el_value = element, el_position = i \<rparr>]))"

definition set_pattern_from_list :: "string list \<Rightarrow> PatternElement list \<times> bool" where
  \<comment> \<open>the stored elements are cleared first; the result is the new list of elements and
      the flag that is returned\<close>
  "set_pattern_from_list pattern_list = set_pattern_loop 0 pattern_list []"

definition default_pattern :: "string list" where
  "default_pattern = [''{prefix}'', ''{name}'', ''{suffix}'', ''{num}'', ''{date}'']"

definition PatternBuilder_init :: "PatternElement list" where
  "PatternBuilder_init = fst (set_pattern_from_list default_pattern)"

definition dict_get :: "(string \<rightharpoonup> string) \<Rightarrow> string \<Rightarrow> string \<Rightarrow> string" where
  \<comment> \<open>\<open>d.get(key, default)\<close>\<close>
  "dict_get d k dflt = (case d k of None \<Rightarrow> dflt | Some v \<Rightarrow> v)"

definition default_values :: "string \<Rightarrow> (string \<rightharpoonup> string) \<Rightarrow> (string \<rightharpoonup> string)" where
  "default_values original_name' values =
     [''prefix'' \<mapsto> dict_get values ''prefix'' [],
      ''name'' \<mapsto> original_name',
      ''suffix'' \<mapsto> dict_get values ''suffix'' [],
      ''num'' \<mapsto> dict_get values ''num'' [],
      ''date'' \<mapsto> dict_get values ''date'' []]"

fun filename_parts_loop ::
  "(string \<rightharpoonup> string) \<Rightarrow> PatternElement list \<Rightarrow> string list \<Rightarrow> string list" where
  "filename_parts_loop dv [] filename_parts = filename_parts"
| "filename_parts_loop dv (element # rest) filename_parts =
     (if el_type element = ''placeholder''
      then (let placeholder_name = butlast (drop 1 (el_value element));
                v = dict_get dv placeholder_name []
            in filename_parts_loop dv rest
                 (if v \<noteq> [] then filename_parts @ [v] else filename_parts))
      else filename_parts_loop dv rest (filename_parts @ [el_value element]))"

definition is_separator :: "char \<Rightarrow> bool" where
  \<comment> \<open>the character class of the regular expression: hyphen, underscore, whitespace\<close>
  "is_separator c = (c = CHR ''-'' \<or> c = CHR ''_'' \<or> is_space c)"

function collapse_separators :: "string \<Rightarrow> string" where
  \<comment> \<open>\<open>re.sub\<close> of every maximal run of the class by the run's first character, scanning
      from the left\<close>
  "collapse_separators [] = []"
| "collapse_separators (c # cs) =
     (if is_separator c then c # collapse_separators (dropWhile is_separator cs)
      else c # collapse_separators cs)"
  by pat_completeness auto
termination
  by (relation "measure length") (auto simp: le_imp_less_Suc length_dropWhile_le)

definition strip_set :: "char \<Rightarrow> bool" where
  \<comment> \<open>the characters of \<open>strip('-_ ')\<close>\<close>
  "strip_set c = (c = CHR ''-'' \<or> c = CHR ''_'' \<or> c = CHR '' '')"

definition generate_filename ::
  "PatternElement list \<Rightarrow> string \<Rightarrow> (string \<rightharpoonup> string) \<Rightarrow> string \<Rightarrow> string" where
  "generate_filename elements original_name' values extension' =
     (let ext = (if extension' \<noteq> [] \<and> \<not> startswith extension' ''.''
                 then ''.'' @ extension' else extension');
          filename_parts = filename_parts_loop (default_values original_name' values) elements [];
          filename = concat filename_parts;
          filename1 = collapse_separators filename;
          filename2 = strip_chars strip_set filename1;
          filename3 = (if filename2 = []
                       then (if original_name' \<noteq> [] then original_name' else ''unnamed'')
                       else filename2)
      in filename3 @ ext)"

definition validate_pattern :: "PatternElement list \<Rightarrow> bool \<times> string option" where
  "validate_pattern elements =
     (if elements = [] then (False, Some ''Pattern cannot be empty'')
      else if list_ex (\<lambda>element. el_type element = ''placeholder''
                                  \<or> strip (el_value element) \<noteq> []) elements
           then (True, None)
           else (False, Some ''Pattern must contain at least one placeholder or text''))"


section \<open>The renaming engine (\<open>core/renamer.py\<close>)\<close>

record RenameOperation =
  prefix :: string
  suffix :: string
  add_numbers :: bool
  start_number :: int
  padding :: int
  find_text :: string
  replace_text :: string
  case_sensitive :: bool
  add_date :: bool
  date_type :: string
  date_format :: string
  use_pattern :: bool
  pattern_builder :: "PatternElement list"

definition RenameOperation_init :: RenameOperation where
  "RenameOperation_init =
     \<lparr> prefix = [], suffix = [], add_numbers = False, start_number = 1, padding = 3,
       find_text = [], replace_text = [], case_sensitive = True, add_date = False,
       date_type = ''creation'', date_format = ''%Y-%m-%d'', use_pattern = False,
       pattern_builder = PatternBuilder_init \<rparr>"

definition labelled :: "string \<Rightarrow> bool \<times> string option \<Rightarrow> string list" where
  \<comment> \<open>\<open>if not is_valid: errors.append(f"label: {error_msg}")\<close>\<close>
  "labelled label r = (if fst r then [] else [label @ '': '' @ format_optional (snd r)])"

definition validate :: "Library \<Rightarrow> RenameOperation \<Rightarrow> bool \<times> string list" where
  "validate lib opn =
     (let errors =
        (if add_numbers opn
         then labelled ''Start number'' (validate_start_number_input (str_int (start_number opn)))
              @ labelled ''Padding'' (validate_padding_input (str_int (padding opn)))
         else [])
        @ (if add_date opn
           then labelled ''Date format'' (validate_date_format lib (date_format opn))
           else [])
        @ (if use_pattern opn
           then labelled ''Pattern'' (validate_pattern (pattern_builder opn))
           else [])
      in (errors = [], errors))"

record BulkRenamer =
  file_manager :: FileManager
  operation :: RenameOperation
  undo_stack :: "(string \<times> string) list list"

definition BulkRenamer_init :: BulkRenamer where
  "BulkRenamer_init =
     \<lparr> file_manager = FileManager_init, operation = RenameOperation_init, undo_stack = [] \<rparr>"

definition configure_operation ::
  "Library \<Rightarrow> BulkRenamer \<Rightarrow> string \<Rightarrow> string \<Rightarrow> bool \<Rightarrow> int \<Rightarrow> int \<Rightarrow> string \<Rightarrow> string \<Rightarrow>
     bool \<Rightarrow> bool \<Rightarrow> string \<Rightarrow> string \<Rightarrow> bool \<Rightarrow> string list option \<Rightarrow>
     BulkRenamer \<times> bool \<times> string list" where
  "configure_operation lib br prefix' suffix' add_numbers' start_number' padding' find_text'
       replace_text' case_sensitive' add_date' date_type' date_format' use_pattern'
       pattern_elements =
     (let op1 = (operation br)
            \<lparr> prefix := prefix', suffix := suffix', add_numbers := add_numbers',
              start_number := start_number', padding := padding', find_text := find_text',
              replace_text := replace_text', case_sensitive := case_sensitive',
              add_date := add_date', date_type := date_type', date_format := date_format',
              use_pattern := use_pattern' \<rparr>;
          op2 = (case pattern_elements of
                   None \<Rightarrow> op1
                 | Some pattern_list \<Rightarrow>
                     if use_pattern' \<and> pattern_list \<noteq> []
                     then op1\<lparr>pattern_builder := fst (set_pattern_from_list pattern_list)\<rparr>
                     else op1)
      in (br\<lparr>operation := op2\<rparr>, validate lib op2))"

definition apply_standard_operations ::
  "Library \<Rightarrow> RenameOperation \<Rightarrow> FileItem list \<Rightarrow> FileItem list" where
  "apply_standard_operations lib opn fl =
     (let fl1 = (if find_text opn \<noteq> []
                 then apply_text_replacement lib (find_text opn) (replace_text opn)
                        (case_sensitive opn) fl
                 else fl);
          fl2 = (if prefix opn \<noteq> [] \<or> suffix opn \<noteq> []
                 then apply_prefix_suffix (prefix opn) (suffix opn) fl1 else fl1);
          fl3 = (if add_numbers opn
                 then apply_sequential_numbering (start_number opn) (padding opn) fl2 else fl2);
          fl4 = (if add_date opn
                 then apply_date_addition lib (date_type opn) (date_format opn) fl3 else fl3)
      in fl4)"

definition pattern_generator :: "Library \<Rightarrow> RenameOperation \<Rightarrow> FileItem \<Rightarrow> nat \<Rightarrow> string" where
  "pattern_generator lib opn file_item index =
     (let values = [''prefix'' \<mapsto> prefix opn, ''suffix'' \<mapsto> suffix opn,
                    ''num'' \<mapsto> (if add_numbers opn
                                  then zfill (padding opn) (str_int (start_number opn + int index))
                                  else []),
                    ''date'' \<mapsto> (if add_date opn
                                   then (case get_date_by_type lib (original_path file_item)
                                                (date_type opn) (date_format opn) of
                                           None \<Rightarrow> [] | Some d \<Rightarrow> d)
                                   else [])];
          original_name' =
            (if find_text opn \<noteq> []
             then (if case_sensitive opn
                   then str_replace (find_text opn) (replace_text opn) (original_name file_item)
                   else re_sub_ignorecase lib (find_text opn) (replace_text opn)
                          (original_name file_item))
             else original_name file_item)
      in generate_filename (pattern_builder opn) original_name' values [])"

definition apply_operation :: "Library \<Rightarrow> RenameOperation \<Rightarrow> FileItem list \<Rightarrow> FileItem list" where
  "apply_operation lib opn fl =
     (if use_pattern opn then apply_pattern (pattern_generator lib opn) fl
      else apply_standard_operations lib opn fl)"

definition preview_changes :: "Library \<Rightarrow> BulkRenamer \<Rightarrow> BulkRenamer \<times> (string \<times> string) list" where
  "preview_changes lib br =
     (let fl = apply_operation lib (operation br) (reset_changes (files (file_manager br)))
      in (br\<lparr>file_manager := (file_manager br)\<lparr>files := fl\<rparr>\<rparr>, preview_list fl))"

definition push_undo ::
  "(string \<times> string) list list \<Rightarrow> (string \<times> string) list \<Rightarrow> (string \<times> string) list list" where
  \<comment> \<open>\<open>append\<close>, then \<open>pop(0)\<close> when more than ten batches are held\<close>
  "push_undo stack successful_renames =
     (if successful_renames \<noteq> []
      then (let stack1 = stack @ [successful_renames]
            in if length stack1 > 10 then tl stack1 else stack1)
      else stack)"

definition execute_rename ::
  "Library \<Rightarrow> filesystem \<Rightarrow> BulkRenamer \<Rightarrow> filesystem \<times> BulkRenamer \<times> bool \<times> string list \<times> nat" where
  "execute_rename lib fs br =
     (let br1 = fst (preview_changes lib br);
          validation_errors = validate_changes fs (files (file_manager br1))
      in if validation_errors \<noteq> [] then (fs, br1, False, validation_errors, 0)
         else (case FileManager_execute_rename fs (files (file_manager br1)) of
                 (fs', fl', successful_renames, errors) \<Rightarrow>
                   (fs',
                    br1\<lparr>file_manager := (file_manager br1)\<lparr>files := fl'\<rparr>,
                        undo_stack := push_undo (undo_stack br1) successful_renames\<rparr>,
                    errors = [], errors, length successful_renames)))"

definition can_undo :: "BulkRenamer \<Rightarrow> bool" where
  "can_undo br = (length (undo_stack br) > 0)"

fun undo_loop :: "filesystem \<Rightarrow> (string \<times> string) list \<Rightarrow> string list \<Rightarrow> filesystem \<times> string list" where
  \<comment> \<open>\<open>for new_path, old_path in ...\<close>: the first component of a pair is bound to
      \<open>new_path\<close>, the second to \<open>old_path\<close>\<close>
  "undo_loop fs [] errors = (fs, errors)"
| "undo_loop fs ((new_path', old_path) # rest) errors =
     (if os_path_exists fs new_path'
      then (case os_rename fs new_path' old_path of
              Inr fs' \<Rightarrow> undo_loop fs' rest errors
            | Inl e \<Rightarrow>
                undo_loop fs rest
                  (errors @ [''Could not undo rename for '' @ new_path' @ '': '' @ str_os_error e]))
      else undo_loop fs rest (errors @ [''File not found: '' @ new_path']))"

definition undo_last_rename ::
  "filesystem \<Rightarrow> BulkRenamer \<Rightarrow> filesystem \<times> BulkRenamer \<times> bool \<times> string option" where
  "undo_last_rename fs br =
     (if undo_stack br = [] then (fs, br, False, Some ''No operations to undo'')
      else
        let last_operation = last (undo_stack br);
            br1 = br\<lparr>undo_stack := butlast (undo_stack br)\<rparr>
        in (case undo_loop fs (rev last_operation) [] of
              (fs', errors) \<Rightarrow>
                if errors \<noteq> [] then (fs', br1, False, Some (join_with ''; '' errors))
                else (fs', br1\<lparr>file_manager := fst (load_files fs' (file_manager br1))\<rparr>,
                      True, None)))"


section \<open>What validation reports, file by file\<close>

text \<open>
  The description of \<open>validate_changes\<close> in words: a file with a pending name yields a
  duplicate error when an earlier file of the list with a pending name proposes the same
  name with extension, and a target error when its proposed path exists and is not its own
  path. These definitions are compared with the loop of the source below.
\<close>

definition full_name :: "FileItem \<Rightarrow> string" where
  "full_name f = new_name f @ extension f"

definition pending_full_names :: "FileItem list \<Rightarrow> string list" where
  "pending_full_names fl = map full_name (filter (\<lambda>f. new_name f \<noteq> []) fl)"

definition file_errors :: "filesystem \<Rightarrow> string set \<Rightarrow> FileItem \<Rightarrow> string list" where
  "file_errors fs earlier f =
     (if new_name f = [] then []
      else (if full_name f \<in> earlier then [''Duplicate filename: '' @ full_name f] else [])
           @ (if os_path_exists fs (new_path f) \<and> new_path f \<noteq> original_path f
              then [''Target file already exists: '' @ full_name f] else []))"

section \<open>Rendering a pattern, as described\<close>

text \<open>
  Rendering in the words of the specification: every token gives its text, a literal its
  own and a placeholder its value, which may be empty; the texts are concatenated; every
  run of separator characters is collapsed to its first character; separator characters
  are trimmed at both ends; an empty result falls back to the original name or to
  \<open>unnamed\<close>; the extension comes last, with a dot in front. The characters that form a run
  are a parameter \<open>S\<close>, so that the description can be read with hyphen, underscore and
  space, as it is worded, and with the character class of the source.
\<close>

definition token_text :: "(string \<rightharpoonup> string) \<Rightarrow> PatternElement \<Rightarrow> string" where
  "token_text dv t =
     (if el_type t = ''placeholder'' then dict_get dv (butlast (drop 1 (el_value t))) []
      else el_value t)"

fun collapse_runs :: "(char \<Rightarrow> bool) \<Rightarrow> string \<Rightarrow> string" where
  "collapse_runs S [] = []"
| "collapse_runs S [c] = [c]"
| "collapse_runs S (c # d # cs) =
     (if S c \<and> S d then collapse_runs S (c # cs) else c # collapse_runs S (d # cs))"

definition render ::
  "(char \<Rightarrow> bool) \<Rightarrow> PatternElement list \<Rightarrow> string \<Rightarrow> (string \<rightharpoonup> string) \<Rightarrow> string \<Rightarrow> string" where
  "render S tokens name values ext =
     (let body = strip_chars strip_set
                   (collapse_runs S (concat (map (token_text (default_values name values)) tokens)))
      in (if body = [] then (if name \<noteq> [] then name else ''unnamed'') else body)
         @ (if ext \<noteq> [] \<and> \<not> startswith ext ''.'' then ''.'' @ ext else ext))"

section \<open>What a scan without recursion should return\<close>

text \<open>
  The regular files directly below the directory whose names end, in lower case, with one
  of the extensions.
\<close>

definition direct_files :: "filesystem \<Rightarrow> string \<Rightarrow> string list \<Rightarrow> string set" where
  "direct_files fs d types =
     path_join d ` {n \<in> set (children fs d).
                     os_path_isfile fs (path_join d n)
                     \<and> matches_types (map (\<lambda>ft. strip (lower ft)) types) n}"

section \<open>What execution leaves, file by file\<close>



section \<open>Sequences of operations\<close>

datatype command = Execute Library | Undo

fun step :: "command \<Rightarrow> filesystem \<times> BulkRenamer \<Rightarrow> filesystem \<times> BulkRenamer" where
  "step (Execute lib) (fs, br) =
     (case execute_rename lib fs br of (fs', br', r) \<Rightarrow> (fs', br'))"
| "step Undo (fs, br) =
     (case undo_last_rename fs br of (fs', br', r) \<Rightarrow> (fs', br'))"

fun run :: "command list \<Rightarrow> filesystem \<times> BulkRenamer \<Rightarrow> filesystem \<times> BulkRenamer" where
  "run [] w = w"
| "run (c # cs) w = run cs (step c w)"

section \<open>Example inputs\<close>

definition example_library :: Library where
  \<comment> \<open>no timestamp can be read, every format is accepted\<close>
  "example_library =
     \<lparr> re_sub_ignorecase = (\<lambda>find repl name. name),
       getctime = (\<lambda>p. None), getmtime = (\<lambda>p. None),
       strftime = (\<lambda>format t. Inr ''2024-01-15''),
       exif_date = (\<lambda>p format. None), now = 0 \<rparr>"

definition example_renamer :: "filesystem \<Rightarrow> string \<Rightarrow> FileItem list \<Rightarrow> BulkRenamer" where
  \<comment> \<open>a fresh renamer after \<open>set_directory\<close>, whose file list holds the given items\<close>
  "example_renamer fs d fl =
     BulkRenamer_init
       \<lparr>file_manager := (fst (set_directory fs FileManager_init d))\<lparr>files := fl\<rparr>\<rparr>"

definition with_prefix :: "string \<Rightarrow> BulkRenamer \<Rightarrow> BulkRenamer" where
  \<comment> \<open>\<open>configure_operation(prefix=p)\<close>, every other parameter at its default\<close>
  "with_prefix p br =
     fst (configure_operation example_library br p [] False 1 3 [] [] True False
            ''creation'' ''%Y-%m-%d'' False None)"

definition example_fs :: filesystem where
  "example_fs = [(''/'', Dir), (''/d'', Dir), (''/d/a.jpg'', File 1)]"

definition example_ready :: BulkRenamer where
  "example_ready =
     with_prefix ''x_'' (example_renamer example_fs ''/d'' [make_FileItem ''/d/a.jpg''])"

definition example_full :: BulkRenamer where
  \<comment> \<open>the same renamer holding ten batches\<close>
  "example_full =
     example_ready\<lparr>undo_stack := [(''/d/first'', ''/d/1'')] # replicate 9 [(''/d/o'', ''/d/n'')]\<rparr>"

definition example_fs3 :: filesystem where
  "example_fs3 =
     [(''/'', Dir), (''/d'', Dir), (''/d/x.jpg'', File 1), (''/d/y.jpg'', File 2),
      (''/d/z.jpg'', File 3)]"

definition example_pending3 :: "FileItem list" where
  \<comment> \<open>the first and the third file propose \<open>a.jpg\<close>, the second the name of the third\<close>
  "example_pending3 =
     [(make_FileItem ''/d/x.jpg'')\<lparr>new_name := ''a''\<rparr>,
      (make_FileItem ''/d/y.jpg'')\<lparr>new_name := ''z''\<rparr>,
      (make_FileItem ''/d/z.jpg'')\<lparr>new_name := ''a''\<rparr>]"






definition example_fs_tree :: filesystem where
  "example_fs_tree =
     [(''/'', Dir), (''/d'', Dir), (''/d/b.JPG'', File 3), (''/d/a.jpg'', File 1), (''/d/sub'', Dir),
      (''/d/sub/c.jpg'', File 2), (''/d/x.txt'', File 4), (''/d/dir.jpg'', Dir)]"

definition example_values :: "string \<rightharpoonup> string" where
  "example_values =
     [''prefix'' \<mapsto> ''IMG'', ''suffix'' \<mapsto> ''edited'', ''num'' \<mapsto> ''001'',
      ''date'' \<mapsto> ''2024-01-15'']"

definition tab_name :: string where
  "tab_name = [CHR ''a'', CHR 0x09, CHR 0x09, CHR ''b'']"

definition example_tokens :: "PatternElement list" where
  "example_tokens = fst (set_pattern_from_list [''{prefix}'', ''--'', ''{name}'', '' _'', ''{num}''])"

definition example_invalid_padding :: "BulkRenamer \<times> bool \<times> string list" where
  "example_invalid_padding =
     configure_operation example_library
       (example_renamer example_fs ''/d'' [make_FileItem ''/d/a.jpg''])
       [] [] True 1 0 [] [] True False ''creation'' ''%Y-%m-%d'' False None"

definition example_unknown_placeholder :: "BulkRenamer \<times> bool \<times> string list" where
  "example_unknown_placeholder =
     configure_operation example_library
       (example_renamer example_fs ''/d'' [make_FileItem ''/d/a.jpg''])
       [] [] False 1 3 [] [] True False ''creation'' ''%Y-%m-%d'' True
       (Some [''{name}'', ''{bogus}''])"

definition example_valid_pattern :: "BulkRenamer \<times> bool \<times> string list" where
  "example_valid_pattern =
     configure_operation example_library
       (example_renamer example_fs ''/d'' [make_FileItem ''/d/a.jpg''])
       ''x'' [] False 1 3 [] [] True False ''creation'' ''%Y-%m-%d'' True
       (Some [''{name}'', ''_'', ''{num}''])"

section \<open>Properties\<close>

subsection \<open>Joined paths\<close>

lemma endswith_single: "endswith xs [c] \<longleftrightarrow> xs \<noteq> [] \<and> last xs = c"
proof (cases xs rule: rev_cases)
  case Nil
  then show ?thesis by (simp add: endswith_def)
next
  case (snoc ys y)
  then show ?thesis by (simp add: endswith_def)
qed

lemma path_join_plain:
  assumes "n \<noteq> []" "sep \<notin> set n"
  shows "path_join d n = (if d = [] \<or> endswith d [sep] then d @ n else d @ [sep] @ n)"
proof -
  from assms have "\<not> startswith n [sep]" by (cases n) (auto simp: startswith_def)
  then show ?thesis by (simp add: path_join_def)
qed


subsection \<open>Loading\<close>

text \<open>
  \<open>load_files\<close> builds no item: the first path that the scan returns ends the loop with the
  exception of the constructor. The properties below are therefore stated for file lists
  that are given, with items as \<open>__post_init__\<close> leaves them.
\<close>

lemma load_loop_nothing: "fst (load_loop paths loaded) = loaded"
  by (cases paths) (simp_all add: FileItem_init_def)

lemma load_files_nothing:
  assumes "current_directory fm \<noteq> []"
  shows "files (fst (load_files fs fm)) = []"
proof -
  let ?paths = "get_files_in_directory fs (current_directory fm) (file_types fm) (recursive fm)"
  obtain loaded ok where l: "load_loop ?paths [] = (loaded, ok)"
    by (cases "load_loop ?paths []") auto
  with load_loop_nothing [of ?paths "[]"] have "loaded = []" by simp
  with assms l show ?thesis by (simp add: load_files_def)
qed

subsection \<open>Sequential numbering\<close>

lemma digit_char_value: "d < 10 \<Longrightarrow> int (of_char (digit_char d)) - 48 = int d \<and> is_digit (digit_char d)"
proof -
  assume "d < 10"
  then have "d \<in> {0,1,2,3,4,5,6,7,8,9}" by auto
  then show ?thesis by (auto simp: digit_char_def is_digit_def)
qed

lemma digits_value_snoc: "digits_value (ds @ [c]) = 10 * digits_value ds + (int (of_char c) - 48)"
  by (simp add: digits_value_def)

lemma str_nat_value: "digits_value (str_nat n) = int n \<and> list_all is_digit (str_nat n)"
proof (induction n rule: str_nat.induct)
  case (1 n)
  show ?case
  proof (cases "n < 10")
    case True
    then show ?thesis
      using digit_char_value [of n] by (simp add: str_nat.simps [of n] digits_value_def)
  next
    case False
    have m: "n mod 10 < 10" by simp
    from False 1 have ih: "digits_value (str_nat (n div 10)) = int (n div 10)"
      "list_all is_digit (str_nat (n div 10))" by simp_all
    have dm: "10 * int (n div 10) + int (n mod 10) = int n"
      by presburger
    from False ih digit_char_value [OF m] dm show ?thesis
      by (simp add: str_nat.simps [of n] digits_value_snoc)
  qed
qed

lemma numbering_loop_length: "length (numbering_loop s p i fl) = length fl"
  by (induction fl arbitrary: i) (simp_all add: Let_def)

lemma numbering_loop_nth:
  "k < length fl \<Longrightarrow>
   numbering_loop s p i fl ! k =
     (fl ! k)\<lparr>new_name := (if new_name (fl ! k) \<noteq> [] then new_name (fl ! k) else original_name (fl ! k))
                  @ ''_'' @ zfill p (str_int (s + int (i + k)))\<rparr>"
proof (induction fl arbitrary: i k)
  case Nil
  then show ?case by simp
next
  case (Cons f fl)
  show ?case
  proof (cases k)
    case 0
    then show ?thesis by (simp add: Let_def)
  next
    case (Suc j)
    with Cons.prems have "j < length fl" by simp
    from Cons.IH [OF this, of "Suc i"] Suc show ?thesis by (simp add: Let_def)
  qed
qed

lemma zfill_nonneg:
  assumes "0 \<le> n"
  shows "zfill w (str_int n) = replicate (nat (w - int (length (str_int n)))) CHR ''0'' @ str_int n"
proof -
  from assms have s: "str_int n = str_nat (nat n)" by (simp add: str_int_def)
  have d: "list_all is_digit (str_nat (nat n))" using str_nat_value by blast
  have ne: "str_nat (nat n) \<noteq> []" by (subst str_nat.simps) simp
  then obtain c cs where cs: "str_nat (nat n) = c # cs" by (cases "str_nat (nat n)") auto
  with d have "is_digit c" by simp
  then have "c \<noteq> CHR ''+'' \<and> c \<noteq> CHR ''-''" by (auto simp: is_digit_def)
  with cs s show ?thesis by (auto simp: zfill_def Let_def)
qed

text \<open>
  Claim C8. With sequential numbering, the file at position \<open>i\<close> of the list (counted from
  zero) gets its current name (the pending name, or the original name when nothing is
  pending), an underscore, and \<open>str(start + i)\<close> filled with zeros to the padding width:
  for a number that is not negative these are leading zeros in front of decimal digits
  that denote \<open>start + i\<close>. The list keeps its length, and start 5 with padding 2 over
  three files gives the numbers 05, 06, 07 in list order.
\<close>

theorem C8_sequential_numbering:
  "(\<forall>i < length fl.
      new_name (apply_sequential_numbering start pad fl ! i) =
        (if new_name (fl ! i) \<noteq> [] then new_name (fl ! i) else original_name (fl ! i))
        @ ''_'' @ zfill pad (str_int (start + int i))
      \<and> (0 \<le> start + int i \<longrightarrow>
           zfill pad (str_int (start + int i)) =
             replicate (nat (pad - int (length (str_int (start + int i))))) CHR ''0''
             @ str_int (start + int i)
           \<and> digits_value (str_int (start + int i)) = start + int i))
   \<and> length (apply_sequential_numbering start pad fl) = length fl
   \<and> map new_name (apply_sequential_numbering 5 2
        (map make_FileItem [''/d/a.jpg'', ''/d/b.jpg'', ''/d/c.jpg'']))
      = [''a_05'', ''b_06'', ''c_07'']"
proof (intro conjI allI impI)
  fix i assume "i < length fl"
  then show "new_name (apply_sequential_numbering start pad fl ! i) =
        (if new_name (fl ! i) \<noteq> [] then new_name (fl ! i) else original_name (fl ! i))
        @ ''_'' @ zfill pad (str_int (start + int i))"
    by (simp add: apply_sequential_numbering_def numbering_loop_nth)
next
  fix i assume "0 \<le> start + int i"
  then show "zfill pad (str_int (start + int i)) =
             replicate (nat (pad - int (length (str_int (start + int i))))) CHR ''0''
             @ str_int (start + int i)"
    by (rule zfill_nonneg)
next
  fix i assume "0 \<le> start + int i"
  then show "digits_value (str_int (start + int i)) = start + int i"
    using str_nat_value [of "nat (start + int i)"] by (simp add: str_int_def)
next
  show "length (apply_sequential_numbering start pad fl) = length fl"
    by (simp add: apply_sequential_numbering_def numbering_loop_length)
next
  show "map new_name (apply_sequential_numbering 5 2
        (map make_FileItem [''/d/a.jpg'', ''/d/b.jpg'', ''/d/c.jpg'']))
      = [''a_05'', ''b_06'', ''c_07'']"
    by code_simp
qed

theorem C8_sequential_numbering_witness:
  "new_name (apply_sequential_numbering 5 2
      [make_FileItem ''/d/a.jpg'', (make_FileItem ''/d/b.jpg'')\<lparr>new_name := ''pic''\<rparr>] ! 1) = ''pic_06''
   \<and> digits_value ''6'' = 6"
proof -
  let ?fl = "[make_FileItem ''/d/a.jpg'', (make_FileItem ''/d/b.jpg'')\<lparr>new_name := ''pic''\<rparr>]"
  have len: "(1::nat) < length ?fl" by simp
  have nn: "(0::int) \<le> 5 + int 1" by simp
  from C8_sequential_numbering [of ?fl 5 2] len nn
  have a: "new_name (apply_sequential_numbering 5 2 ?fl ! 1) =
        (if new_name (?fl ! 1) \<noteq> [] then new_name (?fl ! 1) else original_name (?fl ! 1))
        @ ''_'' @ zfill 2 (str_int (5 + int 1))"
    and b: "digits_value (str_int (5 + int 1)) = 5 + int 1"
    by blast+
  have s: "str_int (5 + int 1) = ''6''" by code_simp
  have z: "zfill 2 ''6'' = ''06''" by code_simp
  from a b s z show ?thesis by simp
qed


subsection \<open>The undo stack\<close>

lemma push_undo_bounded: "length stack \<le> 10 \<Longrightarrow> length (push_undo stack batch) \<le> 10"
  by (auto simp: push_undo_def Let_def)

lemma push_undo_last: "batch \<noteq> [] \<Longrightarrow> last (push_undo stack batch) = batch"
  by (cases stack) (auto simp: push_undo_def Let_def)

lemma preview_changes_undo_stack: "undo_stack (fst (preview_changes lib br)) = undo_stack br"
  by (simp add: preview_changes_def Let_def)

lemma execute_rename_undo_stack:
  assumes "execute_rename lib fs br = (fs', br', success, errors, renamed)"
  shows "\<exists>batch. length batch = renamed \<and> undo_stack br' = push_undo (undo_stack br) batch"
proof (cases "validate_changes fs (files (file_manager (fst (preview_changes lib br)))) = []")
  case False
  with assms have "renamed = 0" and "undo_stack br' = undo_stack br"
    by (auto simp: execute_rename_def Let_def preview_changes_undo_stack)
  then have "length ([] :: (string \<times> string) list) = renamed
      \<and> undo_stack br' = push_undo (undo_stack br) []"
    by (simp add: push_undo_def)
  then show ?thesis by blast
next
  case True
  obtain fs1 fl1 batch errs where
    r: "FileManager_execute_rename fs (files (file_manager (fst (preview_changes lib br))))
          = (fs1, fl1, batch, errs)"
    by (cases "FileManager_execute_rename fs (files (file_manager (fst (preview_changes lib br))))")
       auto
  from assms True r have "length batch = renamed
      \<and> undo_stack br' = push_undo (undo_stack br) batch"
    by (auto simp: execute_rename_def Let_def preview_changes_undo_stack)
  then show ?thesis by blast
qed

lemma undo_last_rename_undo_stack:
  assumes "undo_last_rename fs br = (fs', br', undone, message)"
  shows "undo_stack br' = butlast (undo_stack br)"
    and "undo_stack br \<noteq> [] \<Longrightarrow> fs' = fst (undo_loop fs (rev (last (undo_stack br))) [])"
  using assms
  by (auto simp: undo_last_rename_def Let_def split: if_splits prod.splits)

lemma step_bounded:
  assumes "length (undo_stack (snd w)) \<le> 10"
  shows "length (undo_stack (snd (step c w))) \<le> 10"
proof (cases w)
  case (Pair fs br)
  show ?thesis
  proof (cases c)
    case (Execute lib)
    obtain fs' br' success errors renamed where
      e: "execute_rename lib fs br = (fs', br', success, errors, renamed)"
      by (cases "execute_rename lib fs br") auto
    from execute_rename_undo_stack [OF e] assms Pair obtain batch where
      "undo_stack br' = push_undo (undo_stack br) batch" by blast
    with assms Pair have "length (undo_stack br') \<le> 10"
      by (simp add: push_undo_bounded)
    with e Pair Execute show ?thesis by simp
  next
    case Undo
    obtain fs' br' undone message where
      u: "undo_last_rename fs br = (fs', br', undone, message)"
      by (cases "undo_last_rename fs br") auto
    from undo_last_rename_undo_stack(1) [OF u] assms Pair
    have "length (undo_stack br') \<le> 10" by simp
    with u Pair Undo show ?thesis by simp
  qed
qed

lemma run_bounded:
  "length (undo_stack (snd w)) \<le> 10 \<Longrightarrow> length (undo_stack (snd (run cs w))) \<le> 10"
  by (induction cs arbitrary: w) (simp_all add: step_bounded)

text \<open>
  Claim C7. The undo stack is a bounded stack: from a renamer that holds at most ten
  batches, and so from a fresh one, every sequence of execute and undo operations leaves
  at most ten. An execute that renames nothing leaves the stack as it is; one that renames
  something puts its batch on top, and when ten batches are held already the oldest is
  dropped and ten remain. An undo on a stack that is not empty removes the top batch, and
  the file system after it is the one its loop makes from that batch alone.
\<close>

theorem C7_undo_stack_bounded_lifo:
  "(length (undo_stack br) \<le> 10 \<longrightarrow> length (undo_stack (snd (run cs (fs, br)))) \<le> 10)
   \<and> length (undo_stack (snd (run cs (fs, BulkRenamer_init)))) \<le> 10
   \<and> (execute_rename lib fs br = (fs', br', success, errors, renamed) \<longrightarrow>
        (renamed = 0 \<longrightarrow> undo_stack br' = undo_stack br)
        \<and> (0 < renamed \<longrightarrow> length (last (undo_stack br')) = renamed
             \<and> (length (undo_stack br) < 10 \<longrightarrow>
                   butlast (undo_stack br') = undo_stack br)
             \<and> (length (undo_stack br) = 10 \<longrightarrow>
                   butlast (undo_stack br') = tl (undo_stack br)
                   \<and> length (undo_stack br') = 10)))
   \<and> (undo_last_rename fs br = (fs'', br'', undone, message) \<longrightarrow> undo_stack br \<noteq> [] \<longrightarrow>
        undo_stack br'' = butlast (undo_stack br)
        \<and> fs'' = fst (undo_loop fs (rev (last (undo_stack br))) []))"
proof (intro conjI impI)
  assume "length (undo_stack br) \<le> 10"
  then show "length (undo_stack (snd (run cs (fs, br)))) \<le> 10"
    using run_bounded [of "(fs, br)" cs] by simp
next
  show "length (undo_stack (snd (run cs (fs, BulkRenamer_init)))) \<le> 10"
    using run_bounded [of "(fs, BulkRenamer_init)" cs] by (simp add: BulkRenamer_init_def)
next
  assume e: "execute_rename lib fs br = (fs', br', success, errors, renamed)" and "renamed = 0"
  with execute_rename_undo_stack [OF e] show "undo_stack br' = undo_stack br"
    by (auto simp: push_undo_def)
next
  assume e: "execute_rename lib fs br = (fs', br', success, errors, renamed)" and "0 < renamed"
  with execute_rename_undo_stack [OF e] show "length (last (undo_stack br')) = renamed"
    by (auto simp: push_undo_last)
next
  assume e: "execute_rename lib fs br = (fs', br', success, errors, renamed)" and "0 < renamed"
    and "length (undo_stack br) < 10"
  with execute_rename_undo_stack [OF e] show "butlast (undo_stack br') = undo_stack br"
    by (auto simp: push_undo_def Let_def)
next
  assume e: "execute_rename lib fs br = (fs', br', success, errors, renamed)" and "0 < renamed"
    and "length (undo_stack br) = 10"
  with execute_rename_undo_stack [OF e] obtain batch where
    b: "batch \<noteq> []" "undo_stack br' = push_undo (undo_stack br) batch" by auto
  from \<open>length (undo_stack br) = 10\<close> have ne: "undo_stack br \<noteq> []" by auto
  from b \<open>length (undo_stack br) = 10\<close> ne
  have st: "undo_stack br' = tl (undo_stack br) @ [batch]"
    by (simp add: push_undo_def Let_def)
  then show "butlast (undo_stack br') = tl (undo_stack br)" by simp
  from st \<open>length (undo_stack br) = 10\<close> show "length (undo_stack br') = 10" by simp
next
  assume u: "undo_last_rename fs br = (fs'', br'', undone, message)"
  from undo_last_rename_undo_stack(1) [OF u]
  show "undo_stack br'' = butlast (undo_stack br)" .
next
  assume u: "undo_last_rename fs br = (fs'', br'', undone, message)" and "undo_stack br \<noteq> []"
  from undo_last_rename_undo_stack(2) [OF u this(2)]
  show "fs'' = fst (undo_loop fs (rev (last (undo_stack br))) [])" .
qed


theorem C7_undo_stack_bounded_lifo_witness:
  "length (undo_stack example_full) = 10
   \<and> 0 < snd (snd (snd (snd (execute_rename example_library example_fs example_full))))
   \<and> butlast (undo_stack (fst (snd (execute_rename example_library example_fs example_full))))
       = tl (undo_stack example_full)
   \<and> length (undo_stack (fst (snd (execute_rename example_library example_fs example_full)))) = 10
   \<and> length (undo_stack (snd (run [Execute example_library, Undo] (example_fs, example_full)))) \<le> 10
   \<and> undo_stack (fst (snd (undo_last_rename example_fs example_full)))
       = butlast (undo_stack example_full)"
proof -
  obtain fs' br' success errors renamed where
    e: "execute_rename example_library example_fs example_full
          = (fs', br', success, errors, renamed)"
    by (cases "execute_rename example_library example_fs example_full") auto
  obtain fs'' br'' undone message where
    u: "undo_last_rename example_fs example_full = (fs'', br'', undone, message)"
    by (cases "undo_last_rename example_fs example_full") auto
  have len: "length (undo_stack example_full) = 10"
    by (simp add: example_full_def)
  then have ne: "undo_stack example_full \<noteq> []" by auto
  have "snd (snd (snd (snd (execute_rename example_library example_fs example_full)))) = 1"
    by code_simp
  with e have pos: "0 < renamed" by simp
  from C7_undo_stack_bounded_lifo [of example_full "[Execute example_library, Undo]" example_fs
      example_library fs' br' success errors renamed fs'' br'' undone message] e u len ne pos
  show ?thesis by simp
qed

subsection \<open>Undo after a rename\<close>

text \<open>
  Claim C1, at the input where the code departs from it. The file list of the renamer
  holds the one item of \<open>/d/a.jpg\<close>, and the prefix \<open>x_\<close> is configured. The execute succeeds, moves the file to \<open>/d/x_a.jpg\<close> and
  records the pair (old path, new path). The undo that follows reads the first component
  as the new path, finds nothing at \<open>/d/a.jpg\<close>, reports that, and leaves the file at
  \<open>/d/x_a.jpg\<close>; the batch is consumed.
\<close>

theorem C1_undo_does_not_restore:
  "(case execute_rename example_library example_fs example_ready of
      (fs', br', success, errors, renamed) \<Rightarrow>
        success \<and> errors = [] \<and> renamed = 1
        \<and> map_of fs' ''/d/a.jpg'' = None \<and> map_of fs' ''/d/x_a.jpg'' = Some (File 1)
        \<and> undo_stack br' = [[(''/d/a.jpg'', ''/d/x_a.jpg'')]]
        \<and> (case undo_last_rename fs' br' of
              (fs'', br'', undone, message) \<Rightarrow>
                \<not> undone \<and> message = Some ''File not found: /d/a.jpg''
                \<and> map_of fs'' ''/d/a.jpg'' = None \<and> map_of fs'' ''/d/x_a.jpg'' = Some (File 1)
                \<and> undo_stack br'' = []))"
  by code_simp

theorem C1_undo_does_not_restore_witness:
  "fst (snd (snd (execute_rename example_library example_fs example_ready)))
   \<and> \<not> fst (snd (snd (undo_last_rename
              (fst (execute_rename example_library example_fs example_ready))
              (fst (snd (execute_rename example_library example_fs example_ready))))))"
  using C1_undo_does_not_restore by (auto split: prod.splits)

subsection \<open>The order of the standard operations\<close>

text \<open>
  Claim C2, at the input where the code departs from it. With find text \<open>IMG\<close>, replacement
  \<open>PIC\<close> and prefix \<open>x_\<close>, the file \<open>IMG_001.jpg\<close> gets the pending name \<open>x_IMG_001\<close>: the prefix
  stage reads the original name and overwrites the result \<open>PIC_001\<close> of the replacement.
  The numbering stage in the same place reads that result.
\<close>

theorem C2_prefix_discards_replacement:
  "map new_name
     (apply_standard_operations example_library
        (RenameOperation_init\<lparr>find_text := ''IMG'', replace_text := ''PIC'', prefix := ''x_''\<rparr>)
        [make_FileItem ''/d/IMG_001.jpg''])
   = [''x_IMG_001'']
   \<and> map new_name
     (apply_text_replacement example_library ''IMG'' ''PIC'' True [make_FileItem ''/d/IMG_001.jpg''])
   = [''PIC_001'']
   \<and> map new_name
     (apply_standard_operations example_library
        (RenameOperation_init\<lparr>find_text := ''IMG'', replace_text := ''PIC'', add_numbers := True\<rparr>)
        [make_FileItem ''/d/IMG_001.jpg''])
   = [''PIC_001_001'']"
  by code_simp


theorem C2_prefix_discards_replacement_witness:
  "new_name (hd
     (apply_standard_operations example_library
        (RenameOperation_init\<lparr>find_text := ''IMG'', replace_text := ''PIC'', prefix := ''x_''\<rparr>)
        [make_FileItem ''/d/IMG_001.jpg'']))
   \<noteq> ''x_PIC_001''"
proof -
  have "[make_FileItem ''/d/IMG_001.jpg''] \<noteq> []" by simp
  then have ne: "apply_standard_operations example_library
        (RenameOperation_init\<lparr>find_text := ''IMG'', replace_text := ''PIC'', prefix := ''x_''\<rparr>)
        [make_FileItem ''/d/IMG_001.jpg''] \<noteq> []"
    using C2_prefix_discards_replacement by auto
  from C2_prefix_discards_replacement ne show ?thesis
    by (simp add: hd_map [symmetric])
qed


subsection \<open>Validation\<close>

lemma pending_full_names_Nil: "pending_full_names [] = []"
  by (simp add: pending_full_names_def)

lemma pending_full_names_Cons:
  "pending_full_names (f # fl) =
     (if new_name f \<noteq> [] then full_name f # pending_full_names fl else pending_full_names fl)"
  by (simp add: pending_full_names_def)

lemma validate_loop_errors:
  "validate_loop fs fl errors names =
     errors @ concat (map (\<lambda>i. file_errors fs (names \<union> set (pending_full_names (take i fl))) (fl ! i))
                          [0..<length fl])"
proof (induction fl arbitrary: errors names)
  case Nil
  then show ?case by simp
next
  case (Cons f fl)
  let ?rhs = "\<lambda>ns xs. concat (map (\<lambda>i. file_errors fs (ns \<union> set (pending_full_names (take i xs))) (xs ! i))
                                   [0..<length xs])"
  have "map (\<lambda>i. file_errors fs (names \<union> set (pending_full_names (take i (f # fl)))) ((f # fl) ! i))
            [0..<length (f # fl)]
        = file_errors fs names f
          # map (\<lambda>i. file_errors fs (names \<union> set (pending_full_names (f # take i fl))) (fl ! i))
                [0..<length fl]"
    by (simp add: map_upt_Suc pending_full_names_Nil del: upt_Suc)
  then have shift: "?rhs names (f # fl) =
      file_errors fs names f
      @ concat (map (\<lambda>i. file_errors fs (names \<union> set (pending_full_names (f # take i fl))) (fl ! i))
                    [0..<length fl])"
    by (simp only: concat.simps)
  show ?case
  proof (cases "new_name f = []")
    case True
    then have "validate_loop fs (f # fl) errors names = validate_loop fs fl errors names"
      by simp
    also have "\<dots> = errors @ ?rhs names fl" by (rule Cons.IH)
    also from True have "?rhs names fl = ?rhs names (f # fl)"
      unfolding shift by (simp add: pending_full_names_Cons file_errors_def)
    finally show ?thesis .
  next
    case False
    let ?names1 = "insert (full_name f) names"
    let ?errors2 = "errors @ file_errors fs names f"
    have names: "(if full_name f \<in> names then names else insert (full_name f) names) = ?names1"
      by auto
    from False have "validate_loop fs (f # fl) errors names = validate_loop fs fl ?errors2 ?names1"
      by (simp add: Let_def names file_errors_def full_name_def [symmetric])
    also have "\<dots> = ?errors2 @ ?rhs ?names1 fl" by (rule Cons.IH)
    also from False have "?rhs ?names1 fl
        = concat (map (\<lambda>i. file_errors fs (names \<union> set (pending_full_names (f # take i fl))) (fl ! i))
                    [0..<length fl])"
      by (simp add: pending_full_names_Cons)
    finally show ?thesis unfolding shift by simp
  qed
qed

lemma validate_loop_count:
  "count_list (validate_loop fs fl errors names) (''Duplicate filename: '' @ n) =
     count_list errors (''Duplicate filename: '' @ n)
     + (if n \<in> names then count_list (pending_full_names fl) n
        else count_list (pending_full_names fl) n - 1)"
proof (induction fl arbitrary: errors names)
  case Nil
  then show ?case by (simp add: pending_full_names_def)
next
  case (Cons f fl)
  show ?case
  proof (cases "new_name f = []")
    case True
    then show ?thesis using Cons.IH by (simp add: pending_full_names_Cons)
  next
    case False
    then show ?thesis using Cons.IH
      by (simp add: pending_full_names_Cons Let_def full_name_def [symmetric])
  qed
qed


text \<open>
  Claim C5. The errors of \<open>validate_changes\<close> are, file by file in list order, the errors
  described above and no others: a duplicate error for a pending file whose name with
  extension was proposed by an earlier pending file, then a target error when the proposed
  path exists and differs from the file's own path. So a name proposed by \<open>k\<close> files
  yields \<open>k - 1\<close> duplicate errors, the first proposer none; a file whose proposed path is
  its own path yields no error by itself; and two files that both propose \<open>a.jpg\<close> yield
  the one error naming \<open>a.jpg\<close>.
\<close>

theorem C5_validate_changes:
  "validate_changes fs fl =
     concat (map (\<lambda>i. file_errors fs (set (pending_full_names (take i fl))) (fl ! i))
                 [0..<length fl])
   \<and> count_list (validate_changes fs fl) (''Duplicate filename: '' @ n)
       = count_list (pending_full_names fl) n - 1
   \<and> (new_path f = original_path f \<longrightarrow> file_errors fs {} f = [])
   \<and> validate_changes [(''/d'', Dir), (''/d/x.jpg'', File 1), (''/d/y.jpg'', File 2)]
        [(make_FileItem ''/d/x.jpg'')\<lparr>new_name := ''a''\<rparr>,
         (make_FileItem ''/d/y.jpg'')\<lparr>new_name := ''a''\<rparr>]
       = [''Duplicate filename: a.jpg'']"
proof (intro conjI impI)
  show "validate_changes fs fl =
     concat (map (\<lambda>i. file_errors fs (set (pending_full_names (take i fl))) (fl ! i))
                 [0..<length fl])"
    by (simp add: validate_changes_def validate_loop_errors)
next
  show "count_list (validate_changes fs fl) (''Duplicate filename: '' @ n)
       = count_list (pending_full_names fl) n - 1"
    using validate_loop_count [of fs fl "[]" "{}" n] by (simp add: validate_changes_def)
next
  assume "new_path f = original_path f"
  then show "file_errors fs {} f = []" by (simp add: file_errors_def)
next
  show "validate_changes [(''/d'', Dir), (''/d/x.jpg'', File 1), (''/d/y.jpg'', File 2)]
        [(make_FileItem ''/d/x.jpg'')\<lparr>new_name := ''a''\<rparr>,
         (make_FileItem ''/d/y.jpg'')\<lparr>new_name := ''a''\<rparr>]
       = [''Duplicate filename: a.jpg'']"
    by code_simp
qed

theorem C5_validate_changes_witness:
  "new_path ((make_FileItem ''/d/x.jpg'')\<lparr>new_name := ''x''\<rparr>)
     = original_path ((make_FileItem ''/d/x.jpg'')\<lparr>new_name := ''x''\<rparr>)
   \<and> file_errors example_fs3 {} ((make_FileItem ''/d/x.jpg'')\<lparr>new_name := ''x''\<rparr>) = []
   \<and> count_list (pending_full_names example_pending3) ''a.jpg'' = 2
   \<and> count_list (validate_changes example_fs3 example_pending3) ''Duplicate filename: a.jpg''
       = 2 - 1"
proof -
  let ?f = "(make_FileItem ''/d/x.jpg'')\<lparr>new_name := ''x''\<rparr>"
  note T = C5_validate_changes [of example_fs3 example_pending3 "''a.jpg''" ?f]
  have own: "new_path ?f = original_path ?f" by code_simp
  have names: "count_list (pending_full_names example_pending3) ''a.jpg'' = 2" by code_simp
  from T [THEN conjunct2, THEN conjunct2, THEN conjunct1] own
  have none: "file_errors example_fs3 {} ?f = []" by (rule mp)
  from T [THEN conjunct2, THEN conjunct1]
  have "count_list (validate_changes example_fs3 example_pending3) (''Duplicate filename: '' @ ''a.jpg'')
        = count_list (pending_full_names example_pending3) ''a.jpg'' - 1" .
  then have count: "count_list (validate_changes example_fs3 example_pending3)
        ''Duplicate filename: a.jpg'' = 2 - 1"
    by (simp only: names append.simps)
  from own none names count show ?thesis by (intro conjI)
qed


subsection \<open>Execution of a batch\<close>




















subsection \<open>A pending name equal to the original name\<close>









subsection \<open>Scanning a directory\<close>

lemma path_join_nested:
  assumes sub: "sub \<noteq> []" "sep \<notin> set sub" and m: "m \<noteq> []" "sep \<notin> set m"
    and n: "n \<noteq> []" "sep \<notin> set n"
  shows "path_join (path_join d sub) m \<noteq> path_join d n"
proof
  assume eq: "path_join (path_join d sub) m = path_join d n"
  let ?pre = "if d = [] \<or> endswith d [sep] then d else d @ [sep]"
  have ds: "path_join d sub = ?pre @ sub" using path_join_plain [OF sub] by simp
  have dn: "path_join d n = ?pre @ n" using path_join_plain [OF n] by simp
  from sub have "last (?pre @ sub) = last sub" by simp
  moreover from sub have "last sub \<in> set sub" by simp
  ultimately have "last (?pre @ sub) \<noteq> sep" using sub(2) by auto
  moreover from sub have ne: "?pre @ sub \<noteq> []" by simp
  ultimately have "\<not> endswith (?pre @ sub) [sep]"
    by (simp only: endswith_single) simp
  with ne have "path_join (?pre @ sub) m = (?pre @ sub) @ [sep] @ m"
    using path_join_plain [OF m, of "?pre @ sub"] by simp
  with eq ds dn have "?pre @ sub @ [sep] @ m = ?pre @ n" by simp
  then have "n = sub @ [sep] @ m" by simp
  with n(2) show False by simp
qed


lemma scan_set:
  "set (get_files_in_directory fs d types False) =
     (if d \<noteq> [] \<and> os_path_isdir fs d then direct_files fs d types else {})"
proof (cases "d \<noteq> [] \<and> os_path_isdir fs d")
  case True
  then have "os_listdir fs d = Inr (children fs d)" and "os_path_exists fs d"
    by (auto simp: os_listdir_def os_path_isdir_def os_path_exists_def)
  with True show ?thesis
    by (auto simp: get_files_in_directory_def Let_def direct_files_def)
next
  case False
  then have "d = [] \<or> \<not> os_path_exists fs d \<or> (\<exists>e. os_listdir fs d = Inl e)"
    by (auto simp: os_listdir_def os_path_isdir_def os_path_exists_def
             split: option.splits node.splits)
  with False show ?thesis
    by (auto simp: get_files_in_directory_def Let_def)
qed

lemma direct_files_D:
  assumes "p \<in> direct_files fs d types"
  shows "os_path_isfile fs p \<and> (\<exists>n. n \<noteq> [] \<and> sep \<notin> set n \<and> p = path_join d n)"
  using assms children_D by (auto simp: direct_files_def)

text \<open>
  Claim C9. A scan without recursion returns a list sorted in the lexicographic order of
  the paths. Its elements are direct files of the directory, and all of them when the
  directory exists: each is a regular file and is the directory joined with one name that
  holds no separator. No path two names below the directory is returned, whatever its
  extension. In the example the file \<open>/d/sub/c.jpg\<close> and the directory \<open>/d/dir.jpg\<close> stay
  out.
\<close>

theorem C9_scan_non_recursive:
  "sorted (get_files_in_directory fs d types False)
   \<and> set (get_files_in_directory fs d types False) \<subseteq> direct_files fs d types
   \<and> (d \<noteq> [] \<longrightarrow> os_path_isdir fs d \<longrightarrow>
         set (get_files_in_directory fs d types False) = direct_files fs d types)
   \<and> (\<forall>p \<in> set (get_files_in_directory fs d types False).
         os_path_isfile fs p \<and> (\<exists>n. n \<noteq> [] \<and> sep \<notin> set n \<and> p = path_join d n))
   \<and> (sub \<noteq> [] \<longrightarrow> sep \<notin> set sub \<longrightarrow> m \<noteq> [] \<longrightarrow> sep \<notin> set m \<longrightarrow>
         path_join (path_join d sub) m \<notin> set (get_files_in_directory fs d types False))
   \<and> get_files_in_directory example_fs_tree ''/d'' [''.jpg''] False = [''/d/a.jpg'', ''/d/b.JPG'']"
proof (intro conjI impI ballI)
  show "sorted (get_files_in_directory fs d types False)"
    by (simp add: get_files_in_directory_def Let_def)
next
  show "set (get_files_in_directory fs d types False) \<subseteq> direct_files fs d types"
    by (simp add: scan_set)
next
  assume "d \<noteq> []" "os_path_isdir fs d"
  then show "set (get_files_in_directory fs d types False) = direct_files fs d types"
    by (simp add: scan_set)
next
  fix p assume "p \<in> set (get_files_in_directory fs d types False)"
  then have "p \<in> direct_files fs d types" by (simp add: scan_set split: if_splits)
  from direct_files_D [OF this] show "os_path_isfile fs p" by simp
next
  fix p assume "p \<in> set (get_files_in_directory fs d types False)"
  then have "p \<in> direct_files fs d types" by (simp add: scan_set split: if_splits)
  from direct_files_D [OF this] show "\<exists>n. n \<noteq> [] \<and> sep \<notin> set n \<and> p = path_join d n" by simp
next
  assume sub: "sub \<noteq> []" "sep \<notin> set sub" and m: "m \<noteq> []" "sep \<notin> set m"
  show "path_join (path_join d sub) m \<notin> set (get_files_in_directory fs d types False)"
  proof
    assume "path_join (path_join d sub) m \<in> set (get_files_in_directory fs d types False)"
    then have "path_join (path_join d sub) m \<in> direct_files fs d types"
      by (simp add: scan_set split: if_splits)
    from direct_files_D [OF this] obtain n where
      "n \<noteq> []" "sep \<notin> set n" "path_join (path_join d sub) m = path_join d n" by blast
    with path_join_nested [OF sub m, of n d] show False by simp
  qed
next
  show "get_files_in_directory example_fs_tree ''/d'' [''.jpg''] False = [''/d/a.jpg'', ''/d/b.JPG'']"
    by code_simp
qed

theorem C9_scan_non_recursive_witness:
  "''/d/a.jpg'' \<in> set (get_files_in_directory example_fs_tree ''/d'' [''.jpg''] False)
   \<and> os_path_isfile example_fs_tree ''/d/a.jpg''
   \<and> os_path_isfile example_fs_tree (path_join (path_join ''/d'' ''sub'') ''c.jpg'')
   \<and> path_join (path_join ''/d'' ''sub'') ''c.jpg''
       \<notin> set (get_files_in_directory example_fs_tree ''/d'' [''.jpg''] False)"
proof -
  note T = C9_scan_non_recursive [of example_fs_tree "''/d''" "[''.jpg'']" "''sub''" "''c.jpg''"]
  from T have val: "get_files_in_directory example_fs_tree ''/d'' [''.jpg''] False
                     = [''/d/a.jpg'', ''/d/b.JPG'']" by blast
  then have mem: "''/d/a.jpg'' \<in> set (get_files_in_directory example_fs_tree ''/d'' [''.jpg''] False)"
    by simp
  from T mem have f: "os_path_isfile example_fs_tree ''/d/a.jpg''" by blast
  have s1: "''sub'' \<noteq> []" and s2: "sep \<notin> set ''sub''" and m1: "''c.jpg'' \<noteq> []"
    and m2: "sep \<notin> set ''c.jpg''" by (simp_all add: sep_def)
  from T s1 s2 m1 m2
  have out: "path_join (path_join ''/d'' ''sub'') ''c.jpg''
       \<notin> set (get_files_in_directory example_fs_tree ''/d'' [''.jpg''] False)" by blast
  have inner: "os_path_isfile example_fs_tree (path_join (path_join ''/d'' ''sub'') ''c.jpg'')"
    by code_simp
  from mem f inner out show ?thesis by simp
qed



subsection \<open>Rendering a pattern\<close>

lemma filename_parts_loop_concat:
  "concat (filename_parts_loop dv ts acc) = concat acc @ concat (map (token_text dv) ts)"
  by (induction ts arbitrary: acc) (simp_all add: token_text_def Let_def)

lemma collapse_runs_sep:
  "S c \<Longrightarrow> collapse_runs S (c # cs) = c # collapse_runs S (dropWhile S cs)"
  by (induction cs) simp_all

lemma collapse_runs_other:
  "\<not> S c \<Longrightarrow> collapse_runs S (c # cs) = c # collapse_runs S cs"
  by (cases cs) simp_all

lemma collapse_separators_runs: "collapse_separators s = collapse_runs is_separator s"
  by (induction s rule: collapse_separators.induct)
     (simp_all add: collapse_runs_sep collapse_runs_other del: collapse_runs.simps(3))

lemma collapse_runs_cong:
  "(\<And>c. c \<in> set s \<Longrightarrow> S c = T c) \<Longrightarrow> collapse_runs S s = collapse_runs T s"
  by (induction S s rule: collapse_runs.induct) auto

lemma generate_filename_render:
  "generate_filename tokens name values ext = render is_separator tokens name values ext"
  by (simp add: generate_filename_def render_def Let_def filename_parts_loop_concat
                collapse_separators_runs)

lemma is_space_space: "is_space CHR '' ''"
  by (simp add: is_space_def)

lemma separator_is_strip_set:
  assumes "is_space c \<longrightarrow> c = CHR '' ''"
  shows "is_separator c = strip_set c"
proof (cases "c = CHR '' ''")
  case True
  then show ?thesis by (simp add: is_separator_def strip_set_def is_space_space)
next
  case False
  with assms have "\<not> is_space c" by blast
  with False show ?thesis by (simp add: is_separator_def strip_set_def)
qed

text \<open>
  Claim C4, amended. Rendering is the description above with the runs formed by hyphen,
  underscore and every whitespace character; the trimming removes hyphen, underscore and
  space only. When the concatenated text holds no whitespace other than the space, this
  is the description with hyphen, underscore and space alone. The default tokens with the
  values of the claim give \<open>IMGphotoedited0012024-01-15.jpg\<close>.
\<close>

theorem C4_render:
  "generate_filename tokens name values ext = render is_separator tokens name values ext
   \<and> ((\<forall>c \<in> set (concat (map (token_text (default_values name values)) tokens)).
          is_space c \<longrightarrow> c = CHR '' '')
       \<longrightarrow> generate_filename tokens name values ext = render strip_set tokens name values ext)
   \<and> generate_filename PatternBuilder_init ''photo'' example_values ''.jpg''
       = ''IMGphotoedited0012024-01-15.jpg''"
proof (intro conjI impI)
  show "generate_filename tokens name values ext = render is_separator tokens name values ext"
    by (rule generate_filename_render)
next
  let ?text = "concat (map (token_text (default_values name values)) tokens)"
  assume "\<forall>c \<in> set ?text. is_space c \<longrightarrow> c = CHR '' ''"
  then have "\<And>c. c \<in> set ?text \<Longrightarrow> is_separator c = strip_set c"
    using separator_is_strip_set by blast
  then have "collapse_runs is_separator ?text = collapse_runs strip_set ?text"
    by (rule collapse_runs_cong)
  then show "generate_filename tokens name values ext = render strip_set tokens name values ext"
    by (simp add: generate_filename_render render_def)
next
  show "generate_filename PatternBuilder_init ''photo'' example_values ''.jpg''
       = ''IMGphotoedited0012024-01-15.jpg''"
    by code_simp
qed

theorem C4_render_witness:
  "concat (map (token_text (default_values ''x  y'' [''num'' \<mapsto> ''7''])) example_tokens)
     = ''--x  y _7''
   \<and> generate_filename example_tokens ''x  y'' [''num'' \<mapsto> ''7''] ''jpg''
       = render strip_set example_tokens ''x  y'' [''num'' \<mapsto> ''7''] ''jpg''
   \<and> render strip_set example_tokens ''x  y'' [''num'' \<mapsto> ''7''] ''jpg'' = ''x y 7.jpg''"
proof -
  have whole: "concat (map (token_text (default_values ''x  y'' [''num'' \<mapsto> ''7''])) example_tokens)
                = ''--x  y _7''"
    by code_simp
  have "\<forall>c \<in> set ''--x  y _7''. is_space c \<longrightarrow> c = CHR '' ''"
    by (simp add: is_space_def)
  then have plain: "\<forall>c \<in> set (concat (map (token_text (default_values ''x  y'' [''num'' \<mapsto> ''7'']))
                                       example_tokens)).
                      is_space c \<longrightarrow> c = CHR '' ''"
    by (simp only: whole)
  note T = C4_render [of example_tokens "''x  y''" "[''num'' \<mapsto> ''7'']" "''jpg''"]
  from T [THEN conjunct2, THEN conjunct1] plain
  have eq: "generate_filename example_tokens ''x  y'' [''num'' \<mapsto> ''7''] ''jpg''
       = render strip_set example_tokens ''x  y'' [''num'' \<mapsto> ''7''] ''jpg''"
    by (rule mp)
  have val: "render strip_set example_tokens ''x  y'' [''num'' \<mapsto> ''7''] ''jpg'' = ''x y 7.jpg''"
    by code_simp
  from whole eq val show ?thesis by (intro conjI)
qed

text \<open>
  Claim C4 as it is worded fails where the text holds whitespace other than the space: the
  name \<open>a\<close>, tab, tab, \<open>b\<close> under the pattern that consists of the name is rendered with one
  tab, and the description with hyphen, underscore and space alone keeps both.
\<close>

theorem C4_render_counterexample:
  "generate_filename (fst (set_pattern_from_list [''{name}''])) tab_name Map.empty []
     \<noteq> render strip_set (fst (set_pattern_from_list [''{name}''])) tab_name Map.empty []"
  by code_simp


subsection \<open>Configuring the operation\<close>

lemma set_pattern_loop_values:
  "list_all (\<lambda>e. fst (validate_pattern_placeholder e)) l \<Longrightarrow>
     map el_value (fst (set_pattern_loop i l acc)) = map el_value acc @ l
     \<and> snd (set_pattern_loop i l acc)"
  by (induction l arbitrary: i acc) simp_all

lemma validate_flag: "fst (validate lib opn) \<longleftrightarrow> snd (validate lib opn) = []"
  by (simp add: validate_def Let_def)

text \<open>
  Claim C3, amended. Configuring stores every supplied parameter, valid or not, and then
  validates what is stored: the result is the validation of the stored operation, a flag
  with a list of messages, the flag set exactly when the list is empty. The file manager
  and the undo stack are not touched. The stored pattern stays as it was unless pattern
  mode is on and a list of elements that is not empty is given; a list whose elements are
  all valid becomes the stored pattern.
\<close>

theorem C3_configure_stores_then_validates:
  "configure_operation lib br prefix' suffix' add_numbers' start_number' padding' find_text'
      replace_text' case_sensitive' add_date' date_type' date_format' use_pattern'
      pattern_elements = (br', ok, errors)
   \<longrightarrow>
     prefix (operation br') = prefix' \<and> suffix (operation br') = suffix'
     \<and> add_numbers (operation br') = add_numbers'
     \<and> start_number (operation br') = start_number' \<and> padding (operation br') = padding'
     \<and> find_text (operation br') = find_text' \<and> replace_text (operation br') = replace_text'
     \<and> case_sensitive (operation br') = case_sensitive' \<and> add_date (operation br') = add_date'
     \<and> date_type (operation br') = date_type' \<and> date_format (operation br') = date_format'
     \<and> use_pattern (operation br') = use_pattern'
     \<and> (ok, errors) = validate lib (operation br')
     \<and> (ok \<longleftrightarrow> errors = [])
     \<and> file_manager br' = file_manager br \<and> undo_stack br' = undo_stack br
     \<and> (\<not> use_pattern' \<or> pattern_elements = None \<or> pattern_elements = Some []
          \<longrightarrow> pattern_builder (operation br') = pattern_builder (operation br))
     \<and> (\<forall>l. use_pattern' \<and> pattern_elements = Some l \<and> l \<noteq> []
              \<and> list_all (\<lambda>e. fst (validate_pattern_placeholder e)) l
          \<longrightarrow> map el_value (pattern_builder (operation br')) = l)"
proof (intro impI)
  assume c: "configure_operation lib br prefix' suffix' add_numbers' start_number' padding'
      find_text' replace_text' case_sensitive' add_date' date_type' date_format' use_pattern'
      pattern_elements = (br', ok, errors)"
  define op1 where "op1 = (operation br)
            \<lparr> prefix := prefix', suffix := suffix', add_numbers := add_numbers',
              start_number := start_number', padding := padding', find_text := find_text',
              replace_text := replace_text', case_sensitive := case_sensitive',
              add_date := add_date', date_type := date_type', date_format := date_format',
              use_pattern := use_pattern' \<rparr>"
  define op2 where "op2 = (case pattern_elements of
                   None \<Rightarrow> op1
                 | Some pattern_list \<Rightarrow>
                     if use_pattern' \<and> pattern_list \<noteq> []
                     then op1\<lparr>pattern_builder := fst (set_pattern_from_list pattern_list)\<rparr>
                     else op1)"
  have "configure_operation lib br prefix' suffix' add_numbers' start_number' padding'
      find_text' replace_text' case_sensitive' add_date' date_type' date_format' use_pattern'
      pattern_elements = (br\<lparr>operation := op2\<rparr>, validate lib op2)"
    by (simp only: configure_operation_def Let_def op1_def op2_def)
  with c have "(br', ok, errors) = (br\<lparr>operation := op2\<rparr>, validate lib op2)" by simp
  then have "br' = br\<lparr>operation := op2\<rparr>" and v: "(ok, errors) = validate lib op2"
    by simp_all
  then have op: "operation br' = op2" and fm: "file_manager br' = file_manager br"
    and us: "undo_stack br' = undo_stack br" by simp_all
  have f1: "prefix op2 = prefix'" "suffix op2 = suffix'" "add_numbers op2 = add_numbers'"
    "start_number op2 = start_number'" "padding op2 = padding'" "find_text op2 = find_text'"
    by (simp_all add: op2_def op1_def split: option.splits)
  have f2: "replace_text op2 = replace_text'" "case_sensitive op2 = case_sensitive'"
    "add_date op2 = add_date'" "date_type op2 = date_type'" "date_format op2 = date_format'"
    "use_pattern op2 = use_pattern'"
    by (simp_all add: op2_def op1_def split: option.splits)
  have keep: "\<not> use_pattern' \<or> pattern_elements = None \<or> pattern_elements = Some []
          \<longrightarrow> pattern_builder op2 = pattern_builder (operation br)"
    by (auto simp: op2_def op1_def split: option.splits)
  have new: "\<forall>l. use_pattern' \<and> pattern_elements = Some l \<and> l \<noteq> []
              \<and> list_all (\<lambda>e. fst (validate_pattern_placeholder e)) l
          \<longrightarrow> map el_value (pattern_builder op2) = l"
    using set_pattern_loop_values [of _ 0 "[]"]
    by (auto simp: op2_def set_pattern_from_list_def)
  from v have flag: "ok \<longleftrightarrow> errors = []"
    using validate_flag [of lib op2] by (metis fst_conv snd_conv)
  from f1 f2 keep new v flag fm us show
    "prefix (operation br') = prefix' \<and> suffix (operation br') = suffix'
     \<and> add_numbers (operation br') = add_numbers'
     \<and> start_number (operation br') = start_number' \<and> padding (operation br') = padding'
     \<and> find_text (operation br') = find_text' \<and> replace_text (operation br') = replace_text'
     \<and> case_sensitive (operation br') = case_sensitive' \<and> add_date (operation br') = add_date'
     \<and> date_type (operation br') = date_type' \<and> date_format (operation br') = date_format'
     \<and> use_pattern (operation br') = use_pattern'
     \<and> (ok, errors) = validate lib (operation br')
     \<and> (ok \<longleftrightarrow> errors = [])
     \<and> file_manager br' = file_manager br \<and> undo_stack br' = undo_stack br
     \<and> (\<not> use_pattern' \<or> pattern_elements = None \<or> pattern_elements = Some []
          \<longrightarrow> pattern_builder (operation br') = pattern_builder (operation br))
     \<and> (\<forall>l. use_pattern' \<and> pattern_elements = Some l \<and> l \<noteq> []
              \<and> list_all (\<lambda>e. fst (validate_pattern_placeholder e)) l
          \<longrightarrow> map el_value (pattern_builder (operation br')) = l)"
    unfolding op by blast
qed

theorem C3_configure_stores_then_validates_witness:
  "list_all (\<lambda>e. fst (validate_pattern_placeholder e)) [''{name}'', ''_'', ''{num}'']
   \<and> prefix (operation (fst example_valid_pattern)) = ''x''
   \<and> (fst (snd example_valid_pattern) \<longleftrightarrow> snd (snd example_valid_pattern) = [])
   \<and> map el_value (pattern_builder (operation (fst example_valid_pattern)))
       = [''{name}'', ''_'', ''{num}'']"
proof -
  have valid: "list_all (\<lambda>e. fst (validate_pattern_placeholder e)) [''{name}'', ''_'', ''{num}'']"
    by code_simp
  have c: "configure_operation example_library
       (example_renamer example_fs ''/d'' [make_FileItem ''/d/a.jpg''])
       ''x'' [] False 1 3 [] [] True False ''creation'' ''%Y-%m-%d'' True
       (Some [''{name}'', ''_'', ''{num}''])
     = (fst example_valid_pattern, fst (snd example_valid_pattern), snd (snd example_valid_pattern))"
    by (simp add: example_valid_pattern_def)
  note T = C3_configure_stores_then_validates [THEN mp, OF c]
  from T have p: "prefix (operation (fst example_valid_pattern)) = ''x''" by blast
  from T have f: "fst (snd example_valid_pattern) \<longleftrightarrow> snd (snd example_valid_pattern) = []"
    by blast
  from T valid have v: "map el_value (pattern_builder (operation (fst example_valid_pattern)))
       = [''{name}'', ''_'', ''{num}'']"
    by blast
  from valid p f v show ?thesis by (intro conjI)
qed

text \<open>
  Claim C3 as it is worded fails. With numbering on and padding 0 the validation reports
  the padding, yet the padding 0 is stored in place of 3, and the execute that follows
  renames the file. With the elements \<open>{name}\<close> and \<open>{bogus}\<close> the stored pattern becomes
  the one element \<open>{name}\<close> and no error is reported.
\<close>

theorem C3_configure_counterexample:
  "\<not> fst (snd example_invalid_padding)
   \<and> snd (snd example_invalid_padding) = [''Padding: Value must be at least 1'']
   \<and> padding (operation (fst example_invalid_padding)) = 0
   \<and> padding (operation (example_renamer example_fs ''/d'' [make_FileItem ''/d/a.jpg''])) = 3
   \<and> snd (snd (snd (snd (execute_rename example_library example_fs
                            (fst example_invalid_padding))))) = 1
   \<and> fst (snd example_unknown_placeholder)
   \<and> snd (snd example_unknown_placeholder) = []
   \<and> map el_value (pattern_builder (operation (fst example_unknown_placeholder))) = [''{name}'']
   \<and> map el_value (pattern_builder (operation (example_renamer example_fs ''/d'' [make_FileItem ''/d/a.jpg''])))
       = [''{prefix}'', ''{name}'', ''{suffix}'', ''{num}'', ''{date}'']"
  by code_simp


end
